theory Spec2Isabelle
  imports Complex_Main "HOL-Library.AList"
begin

section \<open>Adaptive Random Forest: a shallow embedding\<close>

text \<open>
  The development follows \<^verbatim>\<open>skmultiflow/classification/meta/adaptive_random_forests.py\<close>.
  Python objects are mutated in place; here every method takes the object and returns the
  updated object. A raised exception is the left injection of a sum; the partly updated
  object that the exception leaves behind is not part of the result. Weights and vote
  counts are Python floats in the source and real numbers here.
\<close>

datatype py_error = AttributeError | IndexError | ValueError | TypeError

subsection \<open>ARFBaseClassifierEvaluator\<close>

record ARFBaseClassifierEvaluator =
  aggregation :: real
  length_ev :: nat

text \<open>
  \<^verbatim>\<open>__init__\<close>: both counters start at zero. The forest stores the evaluator class in
  \<^verbatim>\<open>_evaluator_method\<close> and calls it to obtain a fresh evaluator; there is one such class.
\<close>

definition ARFBaseClassifierEvaluator_init :: ARFBaseClassifierEvaluator where
  "ARFBaseClassifierEvaluator_init = \<lparr>aggregation = 0, length_ev = 0\<rparr>"

datatype evaluator_class = ARFBaseClassifierEvaluator_class

definition new_evaluator :: "evaluator_class \<Rightarrow> ARFBaseClassifierEvaluator" where
  "new_evaluator m = (case m of ARFBaseClassifierEvaluator_class \<Rightarrow> ARFBaseClassifierEvaluator_init)"

text \<open>
  \<^verbatim>\<open>update\<close>: \<^verbatim>\<open>if weight > 0: self.aggregation += weight if y_predicted == y else 0\<close>.
\<close>

definition update :: "ARFBaseClassifierEvaluator \<Rightarrow> int \<Rightarrow> int \<Rightarrow> real \<Rightarrow> ARFBaseClassifierEvaluator" where
  "update e y_predicted y weight =
     (if weight > 0
      then e\<lparr>aggregation := aggregation e + (if y_predicted = y then weight else 0)\<rparr>
      else e)"

definition get_performance :: "ARFBaseClassifierEvaluator \<Rightarrow> real" where
  "get_performance e = aggregation e * 100"

definition evaluator_reset :: "ARFBaseClassifierEvaluator \<Rightarrow> ARFBaseClassifierEvaluator" where
  "evaluator_reset e = e\<lparr>aggregation := 0, length_ev := 0\<rparr>"

text \<open>A run of updates, applied in order, as the forest applies them to one learner.\<close>

fun update_all :: "ARFBaseClassifierEvaluator \<Rightarrow> (int \<times> int \<times> real) list \<Rightarrow> ARFBaseClassifierEvaluator" where
  "update_all e [] = e"
| "update_all e ((p, a, w) # us) = update_all (update e p a w) us"

subsection \<open>External collaborators\<close>

text \<open>
  The base classifier (\<^verbatim>\<open>ARFHoeffdingTree\<close>), the change detector (\<^verbatim>\<open>BaseDriftDetector\<close>,
  \<^verbatim>\<open>ADWIN\<close>) and the random source (\<^verbatim>\<open>numpy.random.RandomState\<close>) are imported by the
  source file and not defined in it. Their methods are parameters of the model: a record
  of functions over an arbitrary classifier state \<open>'c\<close>, detector state \<open>'d\<close> and
  generator state \<open>'r\<close>. A method that may change its object returns the new object.
  The tree constructor receives the generator as it is at that moment; what a tree does
  with it afterwards belongs to the tree's own state.
  An instance is the list of its feature values, a label is an integer, and a vote
  mapping (a Python dict) is an association list in insertion order.
\<close>

type_synonym sample = "real list"
type_synonym votes = "(int \<times> real) list"

record ('c, 'd, 'r) collaborators =
  clf_partial_fit :: "'c \<Rightarrow> sample \<Rightarrow> int \<Rightarrow> real \<Rightarrow> 'c"
  clf_predict :: "'c \<Rightarrow> sample \<Rightarrow> int"
  clf_get_votes_for_instance :: "'c \<Rightarrow> sample \<Rightarrow> votes"
  clf_new_instance :: "'c \<Rightarrow> 'c"
  clf_reset :: "'c \<Rightarrow> 'c"
  det_add_element :: "'d \<Rightarrow> nat \<Rightarrow> 'd"
  det_detected_change :: "'d \<Rightarrow> bool \<times> 'd"
  det_reset :: "'d \<Rightarrow> 'd"
  ARFHoeffdingTree_init :: "nat list option \<Rightarrow> int \<Rightarrow> 'r \<Rightarrow> 'c"
  poisson :: "'r \<Rightarrow> real \<Rightarrow> nat \<times> 'r"

definition INSTANCE_WEIGHT :: "real list" where
  "INSTANCE_WEIGHT = [1]"

text \<open>
  Modelled from the spec: \<^verbatim>\<open>get_dimensions\<close> is imported and not defined in the source
  file. The row count of a batch (of instances or of weights) is the number of its rows,
  and the column count of an instance is the number of its features.
\<close>

definition row_count :: "'a list \<Rightarrow> nat" where
  "row_count batch = length batch"

definition feature_count :: "sample \<Rightarrow> nat" where
  "feature_count X = length X"

subsection \<open>ARFBaseLearner\<close>

text \<open>
  The attributes of a learner other than \<^verbatim>\<open>background_learner\<close> form a record; the
  learner itself is the record together with the optional nested learner, so that the
  type is recursive exactly where the class is.
\<close>

record ('c, 'd) learner_attrs =
  index_original :: nat
  classifier :: 'c
  created_on :: nat
  is_background_learner :: bool
  evaluator_method :: evaluator_class
  drift_detection_method :: "'d option"
  warning_detection_method :: "'d option"
  last_drift_on :: nat
  last_warning_on :: nat
  nb_drifts_detected :: nat
  nb_warnings_detected :: nat
  drift_detection :: "'d option"
  warning_detection :: "'d option"
  use_drift_detector :: bool
  use_background_learner :: bool
  evaluator :: ARFBaseClassifierEvaluator

datatype ('c, 'd) ARFBaseLearner =
  ARFBaseLearner (attrs: "('c, 'd) learner_attrs")
                 (background_learner: "('c, 'd) ARFBaseLearner option")

text \<open>\<^verbatim>\<open>ARFBaseLearner.__init__\<close> (lines 265-304); \<^verbatim>\<open>deepcopy\<close> of a value is the value.\<close>

definition ARFBaseLearner_init ::
  "nat \<Rightarrow> 'c \<Rightarrow> nat \<Rightarrow> evaluator_class \<Rightarrow> 'd option \<Rightarrow> 'd option \<Rightarrow> bool \<Rightarrow> ('c, 'd) ARFBaseLearner" where
  "ARFBaseLearner_init idx clf seen ev_method drift_method warning_method is_bg =
     ARFBaseLearner
       \<lparr>index_original = idx,
        classifier = clf,
        created_on = seen,
        is_background_learner = is_bg,
        evaluator_method = ev_method,
        drift_detection_method = drift_method,
        warning_detection_method = warning_method,
        last_drift_on = 0,
        last_warning_on = 0,
        nb_drifts_detected = 0,
        nb_warnings_detected = 0,
        drift_detection = (if drift_method \<noteq> None then drift_method else None),
        warning_detection = (if warning_method \<noteq> None then warning_method else None),
        use_drift_detector = (drift_method \<noteq> None),
        use_background_learner = (warning_method \<noteq> None),
        evaluator = new_evaluator ev_method\<rparr>
       None"

text \<open>
  \<^verbatim>\<open>ARFBaseLearner.reset\<close> (lines 306-318). \<^verbatim>\<open>self.drift_detection.reset()\<close> on an absent
  detector raises \<^verbatim>\<open>AttributeError\<close>.
\<close>

definition ARFBaseLearner_reset ::
  "('c, 'd, 'r) collaborators \<Rightarrow> ('c, 'd) ARFBaseLearner \<Rightarrow> nat \<Rightarrow> py_error + ('c, 'd) ARFBaseLearner" where
  "ARFBaseLearner_reset ops l seen =
     (if use_background_learner (attrs l) \<and> background_learner l \<noteq> None then
        (let b = the (background_learner l);
             f = (attrs l)
                   \<lparr>classifier := classifier (attrs b),
                    warning_detection := warning_detection (attrs b),
                    drift_detection := drift_detection (attrs b),
                    evaluator_method := evaluator_method (attrs b),
                    created_on := created_on (attrs b)\<rparr>
         in Inr (ARFBaseLearner (f\<lparr>evaluator := new_evaluator (evaluator_method f)\<rparr>) None))
      else
        (case drift_detection (attrs l) of
           None \<Rightarrow> Inl AttributeError
         | Some dd \<Rightarrow>
             (let f = (attrs l)
                        \<lparr>classifier := clf_reset ops (classifier (attrs l)),
                         created_on := seen,
                         drift_detection := Some (det_reset ops dd)\<rparr>
              in Inr (ARFBaseLearner (f\<lparr>evaluator := new_evaluator (evaluator_method f)\<rparr>)
                        (background_learner l)))))"

text \<open>
  \<^verbatim>\<open>ARFBaseLearner.partial_fit\<close>, lines 321-348: the classifier is trained, a background
  learner's classifier is trained with \<^verbatim>\<open>INSTANCE_WEIGHT\<close>, and, for a learner that uses a
  drift detector and is not itself a background learner, the prediction is compared with
  the label and the warning detector is consulted. The result is
  \<^verbatim>\<open>correctly_classifies\<close> and the learner as it stands before line 350.
\<close>

definition train_and_check_warning ::
  "('c, 'd, 'r) collaborators \<Rightarrow> ('c, 'd) ARFBaseLearner \<Rightarrow> sample \<Rightarrow> int \<Rightarrow> real \<Rightarrow> nat
     \<Rightarrow> py_error + (bool \<times> ('c, 'd) ARFBaseLearner)" where
  "train_and_check_warning ops l X y weight seen =
     (let f1 = (attrs l)\<lparr>classifier := clf_partial_fit ops (classifier (attrs l)) X y weight\<rparr>;
          bg1 = (case background_learner l of
                   None \<Rightarrow> None
                 | Some b \<Rightarrow>
                     Some (ARFBaseLearner
                       ((attrs b)\<lparr>classifier :=
                           clf_partial_fit ops (classifier (attrs b)) X y (hd INSTANCE_WEIGHT)\<rparr>)
                       (background_learner b)))
      in
      if use_drift_detector f1 \<and> \<not> is_background_learner f1 then
        (let correctly_classifies = (clf_predict ops (classifier f1) X = y) in
         if use_background_learner f1 then
           (case warning_detection f1 of
              None \<Rightarrow> Inl AttributeError
            | Some wd \<Rightarrow>
                (let wd1 = det_add_element ops wd (if correctly_classifies then 0 else 1);
                     (changed, wd2) = det_detected_change ops wd1
                 in
                 if changed then
                   Inr (correctly_classifies,
                        ARFBaseLearner
                          (f1\<lparr>last_warning_on := seen,
                              nb_warnings_detected := nb_warnings_detected f1 + 1,
                              warning_detection := Some (det_reset ops wd2)\<rparr>)
                          (Some (ARFBaseLearner_init (index_original f1)
                                   (clf_new_instance ops (classifier f1)) seen
                                   (evaluator_method f1) (drift_detection_method f1)
                                   (warning_detection_method f1) True)))
                 else
                   Inr (correctly_classifies,
                        ARFBaseLearner (f1\<lparr>warning_detection := Some wd2\<rparr>) bg1)))
         else Inr (correctly_classifies, ARFBaseLearner f1 bg1))
      else Inr (False, ARFBaseLearner f1 bg1))"

text \<open>
  Lines 350-357: the drift detector is fed the error bit without any test that it
  exists, and a detected change records the time, counts the drift and resets the learner.
\<close>

definition check_drift ::
  "('c, 'd, 'r) collaborators \<Rightarrow> ('c, 'd) ARFBaseLearner \<Rightarrow> bool \<Rightarrow> nat
     \<Rightarrow> py_error + ('c, 'd) ARFBaseLearner" where
  "check_drift ops l correctly_classifies seen =
     (case drift_detection (attrs l) of
        None \<Rightarrow> Inl AttributeError
      | Some dd \<Rightarrow>
          (let dd1 = det_add_element ops dd (if correctly_classifies then 0 else 1);
               (changed, dd2) = det_detected_change ops dd1;
               l1 = ARFBaseLearner ((attrs l)\<lparr>drift_detection := Some dd2\<rparr>) (background_learner l)
           in
           if changed then
             ARFBaseLearner_reset ops
               (ARFBaseLearner
                  ((attrs l1)\<lparr>last_drift_on := seen,
                               nb_drifts_detected := nb_drifts_detected (attrs l1) + 1\<rparr>)
                  (background_learner l1))
               seen
           else Inr l1))"

definition ARFBaseLearner_partial_fit ::
  "('c, 'd, 'r) collaborators \<Rightarrow> ('c, 'd) ARFBaseLearner \<Rightarrow> sample \<Rightarrow> int \<Rightarrow> real \<Rightarrow> nat
     \<Rightarrow> py_error + ('c, 'd) ARFBaseLearner" where
  "ARFBaseLearner_partial_fit ops l X y weight seen =
     (case train_and_check_warning ops l X y weight seen of
        Inl e \<Rightarrow> Inl e
      | Inr (correctly_classifies, l1) \<Rightarrow> check_drift ops l1 correctly_classifies seen)"

definition ARFBaseLearner_predict :: "('c, 'd, 'r) collaborators \<Rightarrow> ('c, 'd) ARFBaseLearner \<Rightarrow> sample \<Rightarrow> int" where
  "ARFBaseLearner_predict ops l X = clf_predict ops (classifier (attrs l)) X"

definition ARFBaseLearner_get_votes_for_instance ::
  "('c, 'd, 'r) collaborators \<Rightarrow> ('c, 'd) ARFBaseLearner \<Rightarrow> sample \<Rightarrow> votes" where
  "ARFBaseLearner_get_votes_for_instance ops l X = clf_get_votes_for_instance ops (classifier (attrs l)) X"

text \<open>All learners of a nest: a learner, its background learner, and so on.\<close>

fun nested_learners :: "('c, 'd) ARFBaseLearner \<Rightarrow> ('c, 'd) ARFBaseLearner list" where
  "nested_learners (ARFBaseLearner f bg) =
     ARFBaseLearner f bg # (case bg of None \<Rightarrow> [] | Some b \<Rightarrow> nested_learners b)"

subsection \<open>AdaptiveRandomForest: configuration and state\<close>

text \<open>
  \<^verbatim>\<open>max_features\<close> may hold a string, an int, a float, \<^verbatim>\<open>None\<close> or any other object.
  The detector arguments of the constructor are arbitrary Python values as well: a
  \<^verbatim>\<open>BaseDriftDetector\<close> instance, \<^verbatim>\<open>None\<close>, or something else.
\<close>

datatype max_features_value =
  MF_str string | MF_int int | MF_float real | MF_None | MF_other

datatype 'd py_value =
  Detector 'd | PyNone | PyStr string | PyInt int | PyFloat real

definition is_BaseDriftDetector :: "'d py_value \<Rightarrow> bool" where
  "is_BaseDriftDetector v = (case v of Detector d \<Rightarrow> True | _ \<Rightarrow> False)"

record ('c, 'd, 'r) AdaptiveRandomForest =
  nb_ensemble :: nat
  max_features :: max_features_value
  disable_weighted_vote :: bool
  lambda_value :: real
  arf_drift_detection_method :: "'d option"
  arf_warning_detection_method :: "'d option"
  instances_seen :: nat
  train_weight_seen_by_model :: real
  ensemble :: "('c, 'd) ARFBaseLearner list option"
  nominal_attributes :: "nat list option"
  random_state :: 'r
  arf_evaluator_method :: evaluator_class

text \<open>
  \<^verbatim>\<open>AdaptiveRandomForest.__init__\<close> (lines 68-97). The argument \<^verbatim>\<open>evaluator_method_metric\<close>
  is not stored by the source and is left out; \<^verbatim>\<open>random_state\<close> is the generator that
  \<^verbatim>\<open>check_random_state\<close> returns.
\<close>

definition AdaptiveRandomForest_init ::
  "nat \<Rightarrow> max_features_value \<Rightarrow> bool \<Rightarrow> real \<Rightarrow> 'd py_value \<Rightarrow> 'd py_value \<Rightarrow> nat list option \<Rightarrow> 'r
     \<Rightarrow> ('c, 'd, 'r) AdaptiveRandomForest" where
  "AdaptiveRandomForest_init nb mf dwv lam drift_method warning_method nominal rs =
     \<lparr>nb_ensemble = nb,
      max_features = mf,
      disable_weighted_vote = dwv,
      lambda_value = lam,
      arf_drift_detection_method =
        (if is_BaseDriftDetector drift_method
         then (case drift_method of Detector d \<Rightarrow> Some d | _ \<Rightarrow> None) else None),
      arf_warning_detection_method =
        (if is_BaseDriftDetector warning_method
         then (case warning_method of Detector d \<Rightarrow> Some d | _ \<Rightarrow> None) else None),
      instances_seen = 0,
      train_weight_seen_by_model = 0,
      ensemble = None,
      nominal_attributes = nominal,
      random_state = rs,
      arf_evaluator_method = ARFBaseClassifierEvaluator_class\<rparr>"

text \<open>\<^verbatim>\<open>AdaptiveRandomForest.reset\<close> (lines 154-160).\<close>

definition reset :: "('c, 'd, 'r) AdaptiveRandomForest \<Rightarrow> ('c, 'd, 'r) AdaptiveRandomForest" where
  "reset s = s\<lparr>ensemble := None,
               max_features := MF_int 0,
               instances_seen := 0,
               train_weight_seen_by_model := 0,
               arf_evaluator_method := ARFBaseClassifierEvaluator_class\<rparr>"

subsection \<open>Feature-subsample size\<close>

text \<open>
  Python's \<^verbatim>\<open>round\<close> of a float is the nearest integer, a tie going to the even one;
  \<^verbatim>\<open>int\<close> of a float drops the fractional part. \<^verbatim>\<open>math.log2(0)\<close> raises \<^verbatim>\<open>ValueError\<close>.
  Square root and logarithm are those of the real numbers.
\<close>

definition py_round :: "real \<Rightarrow> int" where
  "py_round x = (if frac x = 1 / 2 then (if even \<lfloor>x\<rfloor> then \<lfloor>x\<rfloor> else \<lfloor>x\<rfloor> + 1) else round x)"

definition py_int :: "real \<Rightarrow> int" where
  "py_int x = (if x \<ge> 0 then \<lfloor>x\<rfloor> else \<lceil>x\<rceil>)"

text \<open>
  A Python float is an IEEE 754 double. \<open>double_round\<close> is the double nearest to a
  real number: 53 significant bits, a tie going to the even significand. The exponent is
  not bounded here, so overflow and subnormal numbers are left out. A float literal such
  as \<^verbatim>\<open>0.4\<close> denotes \<open>double_round\<close> of the decimal, and \<open>MF_float\<close> holds the value of
  the double. \<^verbatim>\<open>x * n\<close> for a float \<open>x\<close> and an int \<open>n\<close> converts \<open>n\<close> to the nearest double
  and rounds the product of the two doubles.
\<close>

definition double_round :: "real \<Rightarrow> real" where
  "double_round x =
     (if x = 0 then 0
      else (let e = \<lfloor>log 2 \<bar>x\<bar>\<rfloor>; u = 2 powr (of_int (e - 52))
            in of_int (py_round (x / u)) * u))"

definition py_float_mul :: "real \<Rightarrow> nat \<Rightarrow> real" where
  "py_float_mul x n = double_round (x * double_round (real n))"

text \<open>\<^verbatim>\<open>_set_max_features\<close> (lines 206-232); the result is the new \<^verbatim>\<open>self.max_features\<close>.\<close>

definition set_max_features :: "max_features_value \<Rightarrow> nat \<Rightarrow> py_error + int" where
  "set_max_features mf n =
     (case
        (case mf of
           MF_str s \<Rightarrow>
             if s = ''auto'' \<or> s = ''sqrt'' then Inr (py_round (sqrt (real n)))
             else if s = ''log2'' then
               (if n = 0 then Inl ValueError else Inr (py_round (log 2 (real n))))
             else Inr (py_round (sqrt (real n)))
         | MF_int i \<Rightarrow> Inr i
         | MF_float x \<Rightarrow> Inr (py_int (py_float_mul x n))
         | MF_None \<Rightarrow> Inr (int n)
         | MF_other \<Rightarrow> Inr (py_round (sqrt (real n))))
      of
        Inl e \<Rightarrow> Inl e
      | Inr m \<Rightarrow>
          (let m1 = (if m < 0 then m + int n else m);
               m2 = (if m1 \<le> 0 then 1 else m1);
               m3 = (if m2 > int n then int n else m2)
           in Inr m3))"


subsection \<open>AdaptiveRandomForest: training\<close>

text \<open>
  \<^verbatim>\<open>init_ensemble\<close> (lines 189-203).
\<close>

definition init_ensemble ::
  "('c, 'd, 'r) collaborators \<Rightarrow> ('c, 'd, 'r) AdaptiveRandomForest \<Rightarrow> sample
     \<Rightarrow> py_error + ('c, 'd, 'r) AdaptiveRandomForest" where
  "init_ensemble ops s X =
     (case set_max_features (max_features s) (feature_count X) of
        Inl e \<Rightarrow> Inl e
      | Inr m \<Rightarrow>
          Inr (s\<lparr>max_features := MF_int m,
                 ensemble := Some (map (\<lambda>i. ARFBaseLearner_init i
                                         (ARFHoeffdingTree_init ops (nominal_attributes s) m (random_state s))
                                         (instances_seen s)
                                         (arf_evaluator_method s)
                                         (arf_drift_detection_method s)
                                         (arf_warning_detection_method s)
                                         False)
                                    [0..<nb_ensemble s])\<rparr>))"

text \<open>
  The loop of \<^verbatim>\<open>_partial_fit\<close> (lines 121-127) over the indices still to be visited.
  \<^verbatim>\<open>self.ensemble[i]\<close> outside the list raises \<^verbatim>\<open>IndexError\<close>, and indexing \<^verbatim>\<open>None\<close> raises
  \<^verbatim>\<open>TypeError\<close>.
\<close>

fun fit_learners ::
  "('c, 'd, 'r) collaborators \<Rightarrow> sample \<Rightarrow> int \<Rightarrow> real \<Rightarrow> nat list \<Rightarrow> ('c, 'd, 'r) AdaptiveRandomForest
     \<Rightarrow> py_error + ('c, 'd, 'r) AdaptiveRandomForest" where
  "fit_learners ops X y weight [] s = Inr s"
| "fit_learners ops X y weight (i # rest) s =
     (case ensemble s of
        None \<Rightarrow> Inl TypeError
      | Some ens \<Rightarrow>
          if i < length ens then
            (let l = ens ! i;
                 y_predicted = ARFBaseLearner_predict ops l X;
                 l1 = ARFBaseLearner ((attrs l)\<lparr>evaluator := update (evaluator (attrs l)) y_predicted y weight\<rparr>)
                        (background_learner l);
                 (k, rnd) = poisson ops (random_state s) (lambda_value s);
                 s1 = s\<lparr>random_state := rnd, ensemble := Some (ens[i := l1])\<rparr>
             in
             if k > 0 then
               (case ARFBaseLearner_partial_fit ops l1 X y (real k) (instances_seen s1) of
                  Inl e \<Rightarrow> Inl e
                | Inr l2 \<Rightarrow> fit_learners ops X y weight rest (s1\<lparr>ensemble := Some (ens[i := l2])\<rparr>))
             else fit_learners ops X y weight rest s1)
          else Inl IndexError)"

text \<open>\<^verbatim>\<open>_partial_fit\<close> (lines 115-127).\<close>

definition partial_fit_instance ::
  "('c, 'd, 'r) collaborators \<Rightarrow> ('c, 'd, 'r) AdaptiveRandomForest \<Rightarrow> sample \<Rightarrow> int \<Rightarrow> real
     \<Rightarrow> py_error + ('c, 'd, 'r) AdaptiveRandomForest" where
  "partial_fit_instance ops s X y weight =
     (let s1 = s\<lparr>instances_seen := instances_seen s + 1\<rparr> in
      case (if ensemble s1 = None then init_ensemble ops s1 X else Inr s1) of
        Inl e \<Rightarrow> Inl e
      | Inr s2 \<Rightarrow> fit_learners ops X y weight [0..<nb_ensemble s2] s2)"

text \<open>
  The loop of \<^verbatim>\<open>partial_fit\<close> (lines 110-113) over the row indices still to be visited.
\<close>

fun fit_rows ::
  "('c, 'd, 'r) collaborators \<Rightarrow> sample list \<Rightarrow> int list \<Rightarrow> real list \<Rightarrow> nat list
     \<Rightarrow> ('c, 'd, 'r) AdaptiveRandomForest \<Rightarrow> py_error + ('c, 'd, 'r) AdaptiveRandomForest" where
  "fit_rows ops X y weight [] s = Inr s"
| "fit_rows ops X y weight (i # rest) s =
     (if i < length weight then
        (if weight ! i \<noteq> 0 then
           (if i < length X \<and> i < length y then
              (case partial_fit_instance ops
                      (s\<lparr>train_weight_seen_by_model := train_weight_seen_by_model s + weight ! i\<rparr>)
                      (X ! i) (y ! i) (weight ! i) of
                 Inl e \<Rightarrow> Inl e
               | Inr s1 \<Rightarrow> fit_rows ops X y weight rest s1)
            else Inl IndexError)
         else fit_rows ops X y weight rest s)
      else Inl IndexError)"

text \<open>
  \<^verbatim>\<open>partial_fit\<close> (lines 102-113): a weight batch whose row count differs from that of
  the instances is replaced by its first weight, once per row; \<^verbatim>\<open>weight[0]\<close> of an empty
  batch raises \<^verbatim>\<open>IndexError\<close>.
\<close>

definition partial_fit ::
  "('c, 'd, 'r) collaborators \<Rightarrow> ('c, 'd, 'r) AdaptiveRandomForest \<Rightarrow> sample list \<Rightarrow> int list option
     \<Rightarrow> real list option \<Rightarrow> py_error + ('c, 'd, 'r) AdaptiveRandomForest" where
  "partial_fit ops s X y weight =
     (case y of
        None \<Rightarrow> Inr s
      | Some ys \<Rightarrow>
          (let w0 = (case weight of None \<Rightarrow> INSTANCE_WEIGHT | Some w \<Rightarrow> w);
               row_cnt = row_count X;
               wrow_cnt = row_count w0
           in
           case (if row_cnt \<noteq> wrow_cnt
                 then (case w0 of [] \<Rightarrow> Inl IndexError | a # _ \<Rightarrow> Inr (replicate row_cnt a))
                 else Inr w0) of
             Inl e \<Rightarrow> Inl e
           | Inr w \<Rightarrow> fit_rows ops X ys w [0..<row_cnt] s))"

subsection \<open>AdaptiveRandomForest: voting and prediction\<close>

text \<open>
  Modelled from the spec: \<^verbatim>\<open>normalize_values_in_dict\<close> is imported and not defined in the
  source file; it divides every value of the mapping by the sum of its values, in place.
\<close>

definition normalize_values_in_dict :: "votes \<Rightarrow> votes" where
  "normalize_values_in_dict vote =
     (let factor = sum_list (map snd vote) in map (\<lambda>(k, v). (k, v / factor)) vote)"

text \<open>
  \<^verbatim>\<open>try: combined_votes[k] += vote[k]\<close>, \<^verbatim>\<open>except KeyError: combined_votes[k] = vote[k]\<close>:
  a key that is present keeps its place, a new key goes to the end.
\<close>

definition add_vote :: "votes \<Rightarrow> int \<Rightarrow> real \<Rightarrow> votes" where
  "add_vote combined k v =
     (case map_of combined k of
        Some old \<Rightarrow> AList.update k (old + v) combined
      | None \<Rightarrow> AList.update k v combined)"

text \<open>The loop of \<^verbatim>\<open>get_votes_for_instance\<close> (lines 173-186).\<close>

fun collect_votes ::
  "('c, 'd, 'r) collaborators \<Rightarrow> bool \<Rightarrow> sample \<Rightarrow> ('c, 'd) ARFBaseLearner list \<Rightarrow> nat list \<Rightarrow> votes
     \<Rightarrow> py_error + votes" where
  "collect_votes ops dwv X ens [] combined_votes = Inr combined_votes"
| "collect_votes ops dwv X ens (i # rest) combined_votes =
     (if i < length ens then
        (let vote = ARFBaseLearner_get_votes_for_instance ops (ens ! i) X in
         if vote \<noteq> [] \<and> sum_list (map snd vote) > 0 then
           (let vote1 = normalize_values_in_dict vote;
                vote2 = (if \<not> dwv
                         then (let performance = get_performance (evaluator (attrs (ens ! i)))
                               in map (\<lambda>(k, v). (k, v * performance)) vote1)
                         else vote1)
            in collect_votes ops dwv X ens rest
                 (fold (\<lambda>(k, v) cv. add_vote cv k v) vote2 combined_votes))
         else collect_votes ops dwv X ens rest combined_votes)
      else Inl IndexError)"

text \<open>
  \<^verbatim>\<open>get_votes_for_instance\<close> (lines 168-187); it initialises the ensemble when there is
  none, so the forest is part of the result.
\<close>

definition get_votes_for_instance ::
  "('c, 'd, 'r) collaborators \<Rightarrow> ('c, 'd, 'r) AdaptiveRandomForest \<Rightarrow> sample
     \<Rightarrow> py_error + (votes \<times> ('c, 'd, 'r) AdaptiveRandomForest)" where
  "get_votes_for_instance ops s X =
     (case (if ensemble s = None then init_ensemble ops s X else Inr s) of
        Inl e \<Rightarrow> Inl e
      | Inr s1 \<Rightarrow>
          (case ensemble s1 of
             None \<Rightarrow> Inl TypeError
           | Some ens \<Rightarrow>
               (case collect_votes ops (disable_weighted_vote s1) X ens [0..<nb_ensemble s1] [] of
                  Inl e \<Rightarrow> Inl e
                | Inr combined_votes \<Rightarrow> Inr (combined_votes, s1))))"

text \<open>
  \<^verbatim>\<open>max(votes, key=votes.get)\<close>: the keys are visited in the order of the mapping and the
  current best is replaced only by a strictly larger value; on an empty mapping
  \<^verbatim>\<open>max\<close> raises \<^verbatim>\<open>ValueError\<close>.
\<close>

fun max_key_from :: "int \<Rightarrow> real \<Rightarrow> votes \<Rightarrow> int" where
  "max_key_from best best_v [] = best"
| "max_key_from best best_v ((k, v) # rest) =
     (if v > best_v then max_key_from k v rest else max_key_from best best_v rest)"

definition py_max_key :: "votes \<Rightarrow> py_error + int" where
  "py_max_key votes = (case votes of [] \<Rightarrow> Inl ValueError | (k, v) # rest \<Rightarrow> Inr (max_key_from k v rest))"

text \<open>The label that \<^verbatim>\<open>predict\<close> appends for one row, from the row's combined votes (lines 144-148).\<close>

definition predicted_label :: "votes \<Rightarrow> py_error + int" where
  "predicted_label votes = (if votes = [] then Inr 0 else py_max_key votes)"

fun predict_rows ::
  "('c, 'd, 'r) collaborators \<Rightarrow> sample list \<Rightarrow> nat list \<Rightarrow> ('c, 'd, 'r) AdaptiveRandomForest \<Rightarrow> int list
     \<Rightarrow> py_error + (int list \<times> ('c, 'd, 'r) AdaptiveRandomForest)" where
  "predict_rows ops X [] s predictions = Inr (predictions, s)"
| "predict_rows ops X (i # rest) s predictions =
     (if i < length X then
        (case get_votes_for_instance ops s (X ! i) of
           Inl e \<Rightarrow> Inl e
         | Inr (votes, s1) \<Rightarrow>
             (case predicted_label votes of
                Inl e \<Rightarrow> Inl e
              | Inr label \<Rightarrow> predict_rows ops X rest s1 (predictions @ [label])))
      else Inl IndexError)"

text \<open>\<^verbatim>\<open>predict\<close> (lines 129-149).\<close>

definition predict ::
  "('c, 'd, 'r) collaborators \<Rightarrow> ('c, 'd, 'r) AdaptiveRandomForest \<Rightarrow> sample list
     \<Rightarrow> py_error + (int list \<times> ('c, 'd, 'r) AdaptiveRandomForest)" where
  "predict ops s X = predict_rows ops X [0..<length X] s []"

subsection \<open>Reachable forests\<close>

text \<open>
  The forests a caller can obtain: the constructor's, and those that the public methods
  return from a reachable forest. A call that raises returns no forest.
\<close>

inductive reachable :: "('c, 'd, 'r) collaborators \<Rightarrow> ('c, 'd, 'r) AdaptiveRandomForest \<Rightarrow> bool"
  for ops :: "('c, 'd, 'r) collaborators" where
  reachable_init:
    "reachable ops (AdaptiveRandomForest_init nb mf dwv lam drift_method warning_method nominal rs)"
| reachable_partial_fit:
    "reachable ops s \<Longrightarrow> partial_fit ops s X y weight = Inr s1 \<Longrightarrow> reachable ops s1"
| reachable_predict:
    "reachable ops s \<Longrightarrow> predict ops s Xs = Inr (labels, s1) \<Longrightarrow> reachable ops s1"
| reachable_get_votes:
    "reachable ops s \<Longrightarrow> get_votes_for_instance ops s x = Inr (v, s1) \<Longrightarrow> reachable ops s1"
| reachable_reset:
    "reachable ops s \<Longrightarrow> reachable ops (reset s)"

subsection \<open>Concrete collaborators\<close>

text \<open>
  A small instance of the collaborator interface, on which the statements below are
  evaluated: a majority-class classifier that remembers the \<^verbatim>\<open>max_features\<close> it was built
  with and the weight seen per label; a detector that signals after a given number of
  consecutive errors; a generator that replays a list of draws.
\<close>

type_synonym mc_classifier = "int \<times> votes"
type_synonym run_detector = "nat \<times> nat"

definition mc_partial_fit :: "mc_classifier \<Rightarrow> sample \<Rightarrow> int \<Rightarrow> real \<Rightarrow> mc_classifier" where
  "mc_partial_fit c X y w = (fst c, add_vote (snd c) y w)"

definition mc_predict :: "mc_classifier \<Rightarrow> sample \<Rightarrow> int" where
  "mc_predict c X = (case predicted_label (snd c) of Inl e \<Rightarrow> 0 | Inr k \<Rightarrow> k)"

definition run_add_element :: "run_detector \<Rightarrow> nat \<Rightarrow> run_detector" where
  "run_add_element d b = (fst d, if b = 0 then 0 else snd d + 1)"

definition replay_poisson :: "nat list \<Rightarrow> real \<Rightarrow> nat \<times> nat list" where
  "replay_poisson r lam = (case r of [] \<Rightarrow> (0, []) | k # r1 \<Rightarrow> (k, r1))"

definition mc_ops :: "(mc_classifier, run_detector, nat list) collaborators" where
  "mc_ops =
     \<lparr>clf_partial_fit = mc_partial_fit,
      clf_predict = mc_predict,
      clf_get_votes_for_instance = (\<lambda>c X. snd c),
      clf_new_instance = (\<lambda>c. (fst c, [])),
      clf_reset = (\<lambda>c. (fst c, [])),
      det_add_element = run_add_element,
      det_detected_change = (\<lambda>d. (fst d \<le> snd d, d)),
      det_reset = (\<lambda>d. (fst d, 0)),
      ARFHoeffdingTree_init = (\<lambda>nominal m rs. (m, [])),
      poisson = replay_poisson\<rparr>"

subsection \<open>The loops over the lists themselves\<close>

text \<open>
  The index loops above visit \<open>0, 1, ...\<close> in order. The functions of this subsection
  run the same bodies over the list of rows itself; the loops are shown equal to them
  below, where every index is in range.
\<close>

fun predict_seq ::
  "('c, 'd, 'r) collaborators \<Rightarrow> sample list \<Rightarrow> ('c, 'd, 'r) AdaptiveRandomForest \<Rightarrow> int list
     \<Rightarrow> py_error + (int list \<times> ('c, 'd, 'r) AdaptiveRandomForest)" where
  "predict_seq ops [] s predictions = Inr (predictions, s)"
| "predict_seq ops (x # rest) s predictions =
     (case get_votes_for_instance ops s x of
        Inl e \<Rightarrow> Inl e
      | Inr (votes, s1) \<Rightarrow>
          (case predicted_label votes of
             Inl e \<Rightarrow> Inl e
           | Inr label \<Rightarrow> predict_seq ops rest s1 (predictions @ [label])))"

subsection \<open>Concrete forests\<close>

text \<open>
  A forest of one majority-class learner, trained on two one-feature instances with the
  given labels, each with weight 1 and resampling multiplicity 1; its combined votes and
  its prediction for a further instance.
\<close>

definition tie_forest :: "int list \<Rightarrow> py_error + (mc_classifier, run_detector, nat list) AdaptiveRandomForest" where
  "tie_forest ys = partial_fit mc_ops
      (AdaptiveRandomForest_init 1 (MF_int 1) True 6 (Detector (100, 0)) PyNone None [1, 1])
      [[0], [0]] (Some ys) (Some [1, 1])"

definition tie_votes :: "int list \<Rightarrow> py_error + votes" where
  "tie_votes ys =
     (case tie_forest ys of
        Inl e \<Rightarrow> Inl e
      | Inr s \<Rightarrow> (case get_votes_for_instance mc_ops s [0] of Inl e \<Rightarrow> Inl e | Inr (v, s1) \<Rightarrow> Inr v))"

definition tie_prediction :: "int list \<Rightarrow> py_error + int list" where
  "tie_prediction ys =
     (case tie_forest ys of
        Inl e \<Rightarrow> Inl e
      | Inr s \<Rightarrow> (case predict mc_ops s [[0]] of Inl e \<Rightarrow> Inl e | Inr (labels, s1) \<Rightarrow> Inr labels))"

text \<open>A forest whose learners hold the given classifiers and evaluator aggregates.\<close>

definition forest_of ::
  "bool \<Rightarrow> (mc_classifier \<times> real) list \<Rightarrow> (mc_classifier, run_detector, nat list) AdaptiveRandomForest" where
  "forest_of dwv cs =
     (AdaptiveRandomForest_init (length cs) (MF_int 1) dwv 6 (Detector (100, 0)) PyNone None [])
       \<lparr>ensemble :=
          Some (map (\<lambda>(c, a). ARFBaseLearner
                       ((attrs (ARFBaseLearner_init 0 c 0 ARFBaseClassifierEvaluator_class
                                  (Some (100, 0)) None False))
                          \<lparr>evaluator := \<lparr>aggregation = a, length_ev = 0\<rparr>\<rparr>)
                       None)
                  cs)\<rparr>"

subsection \<open>Concrete learners\<close>

text \<open>
  A learner that owns a background learner, a learner that owns none (both with a drift
  detector that signals at the first error), and a forest whose only learner receives a
  warning on its second instance.
\<close>

definition shadowing_learner :: "(mc_classifier, run_detector) ARFBaseLearner" where
  "shadowing_learner =
     ARFBaseLearner
       (attrs (ARFBaseLearner_init 0 (1, [(1, 5)]) 0 ARFBaseClassifierEvaluator_class
                 (Some (1, 0)) (Some (5, 0)) False))
       (Some (ARFBaseLearner_init 0 (1, []) 3 ARFBaseClassifierEvaluator_class
                 (Some (1, 0)) (Some (5, 0)) True))"

definition active_learner :: "(mc_classifier, run_detector) ARFBaseLearner" where
  "active_learner =
     ARFBaseLearner_init 0 (1, [(1, 5)]) 0 ARFBaseClassifierEvaluator_class (Some (1, 0)) None False"

definition shadow_forest :: "py_error + (mc_classifier, run_detector, nat list) AdaptiveRandomForest" where
  "shadow_forest = partial_fit mc_ops
      (AdaptiveRandomForest_init 1 (MF_int 1) False 6 (Detector (100, 0)) (Detector (1, 0)) None [1, 1])
      [[0], [0]] (Some [1, 2]) (Some [1, 1])"

subsection \<open>Shape of an ensemble member\<close>

text \<open>
  An ensemble member is not a background learner, and a background learner it owns is
  marked as one, owns none itself, and exists only where the member uses background
  learners.
\<close>

definition member_ok :: "('c, 'd) ARFBaseLearner \<Rightarrow> bool" where
  "member_ok l =
     (\<not> is_background_learner (attrs l)
      \<and> (case background_learner l of
            None \<Rightarrow> True
          | Some b \<Rightarrow> is_background_learner (attrs b) \<and> background_learner b = None
                        \<and> use_background_learner (attrs l)))"

definition forest_ok :: "('c, 'd, 'r) AdaptiveRandomForest \<Rightarrow> bool" where
  "forest_ok s = (case ensemble s of None \<Rightarrow> True | Some ens \<Rightarrow> (\<forall>l\<in>set ens. member_ok l))"

subsection \<open>Training row by row\<close>

text \<open>
  The per-instance routine applied to each row of a list in turn, after the row's weight
  is added to \<^verbatim>\<open>_train_weight_seen_by_model\<close>; no weight is tested here.
\<close>

fun fit_each ::
  "('c, 'd, 'r) collaborators \<Rightarrow> (sample \<times> int \<times> real) list \<Rightarrow> ('c, 'd, 'r) AdaptiveRandomForest
     \<Rightarrow> py_error + ('c, 'd, 'r) AdaptiveRandomForest" where
  "fit_each ops [] s = Inr s"
| "fit_each ops ((x, y, w) # rest) s =
     (case partial_fit_instance ops
             (s\<lparr>train_weight_seen_by_model := train_weight_seen_by_model s + w\<rparr>) x y w of
        Inl e \<Rightarrow> Inl e
      | Inr s1 \<Rightarrow> fit_each ops rest s1)"

definition weighted_rows_forest :: "(mc_classifier, run_detector, nat list) AdaptiveRandomForest" where
  "weighted_rows_forest =
     AdaptiveRandomForest_init 1 (MF_int 1) False 6 (Detector (100, 0)) PyNone None [1, 1]"

subsection \<open>Vote aggregation in the words of the specification\<close>

text \<open>
  What one learner contributes: nothing when its vote mapping is empty or sums to zero;
  otherwise every value divided by the sum and, unless weighted voting is disabled,
  multiplied by the performance of the learner's evaluator. \<open>tally\<close> sums the
  contributions of all learners to one label, and \<open>add_votes\<close> adds a whole mapping to
  the combined one, key by key.
\<close>

definition learner_share :: "('c, 'd, 'r) collaborators \<Rightarrow> bool \<Rightarrow> sample \<Rightarrow> ('c, 'd) ARFBaseLearner \<Rightarrow> votes" where
  "learner_share ops dwv X l =
     (let vote = ARFBaseLearner_get_votes_for_instance ops l X;
          total = sum_list (map snd vote)
      in if vote = [] \<or> total = 0 then []
         else map (\<lambda>(k, v). (k, (v / total) * (if dwv then 1 else get_performance (evaluator (attrs l)))))
                vote)"

definition tally :: "('c, 'd, 'r) collaborators \<Rightarrow> bool \<Rightarrow> sample \<Rightarrow> ('c, 'd) ARFBaseLearner list \<Rightarrow> int \<Rightarrow> real" where
  "tally ops dwv X ens k =
     (\<Sum>l\<leftarrow>ens. case map_of (learner_share ops dwv X l) k of None \<Rightarrow> 0 | Some v \<Rightarrow> v)"

definition add_votes :: "votes \<Rightarrow> votes \<Rightarrow> votes" where
  "add_votes vote combined = fold (\<lambda>(k, v) cv. add_vote cv k v) vote combined"

text \<open>
  Two learners with evaluator aggregates 0.5 and 1.5, each voting 1 for label 1; three
  learners, the second of which has not voted.
\<close>

definition two_voters :: "bool \<Rightarrow> (mc_classifier, run_detector, nat list) AdaptiveRandomForest" where
  "two_voters dwv = forest_of dwv [((1, [(1, 1)]), 1 / 2), ((1, [(1, 1)]), 3 / 2)]"

definition three_voters :: "(mc_classifier, run_detector, nat list) AdaptiveRandomForest" where
  "three_voters = forest_of False [((1, [(1, 3), (2, 1)]), 1 / 2), ((1, []), 5), ((1, [(2, 4)]), 1 / 4)]"

subsection \<open>Training, resetting and training again\<close>

text \<open>
  A forest of one learner with the default \<^verbatim>\<open>max_features = "auto"\<close> and a generator that
  replays the given draws; an instance of ten features; one call of \<^verbatim>\<open>partial_fit\<close> on
  that instance with label 1; the same call made again after \<^verbatim>\<open>reset\<close>; and two views of
  the outcome: the \<^verbatim>\<open>max_features\<close> the forest and its trees hold, and the prediction
  for the instance.
\<close>

definition auto_forest :: "nat list \<Rightarrow> (mc_classifier, run_detector, nat list) AdaptiveRandomForest" where
  "auto_forest draws =
     AdaptiveRandomForest_init 1 (MF_str ''auto'') True 6 (Detector (100, 0)) PyNone None draws"

definition ten_features :: sample where
  "ten_features = [0, 0, 0, 0, 0, 0, 0, 0, 0, 0]"

definition train_once ::
  "(mc_classifier, run_detector, nat list) AdaptiveRandomForest
     \<Rightarrow> py_error + (mc_classifier, run_detector, nat list) AdaptiveRandomForest" where
  "train_once s = partial_fit mc_ops s [ten_features] (Some [1]) None"

definition reset_and_retrain ::
  "(mc_classifier, run_detector, nat list) AdaptiveRandomForest
     \<Rightarrow> py_error + (mc_classifier, run_detector, nat list) AdaptiveRandomForest" where
  "reset_and_retrain s =
     (case train_once s of Inl e \<Rightarrow> Inl e | Inr s1 \<Rightarrow> train_once (reset s1))"

definition built_with ::
  "py_error + (mc_classifier, run_detector, nat list) AdaptiveRandomForest
     \<Rightarrow> py_error + (max_features_value \<times> int list)" where
  "built_with r =
     (case r of
        Inl e \<Rightarrow> Inl e
      | Inr s \<Rightarrow>
          (case ensemble s of
             None \<Rightarrow> Inl TypeError
           | Some ens \<Rightarrow> Inr (max_features s, map (\<lambda>l. fst (classifier (attrs l))) ens)))"

definition predictions_of ::
  "py_error + (mc_classifier, run_detector, nat list) AdaptiveRandomForest \<Rightarrow> py_error + int list" where
  "predictions_of r =
     (case r of
        Inl e \<Rightarrow> Inl e
      | Inr s \<Rightarrow>
          (case predict mc_ops s [ten_features] of Inl e \<Rightarrow> Inl e | Inr (labels, s1) \<Rightarrow> Inr labels))"

section \<open>Properties\<close>

subsection \<open>Evaluator\<close>

lemma update_all_aggregation:
  "aggregation (update_all e us) =
     aggregation e + (\<Sum>(p, a, w) \<leftarrow> us. if w > 0 \<and> p = a then w else 0)"
  by (induction e us rule: update_all.induct) (simp_all add: update_def)

text \<open>
  Claim C7. \<^verbatim>\<open>update\<close> adds the weight to the running aggregate exactly when the weight is
  positive and the predicted label equals the actual one, and otherwise leaves the
  evaluator as it is. \<^verbatim>\<open>get_performance\<close> is the aggregate times the constant 100: after
  any run of updates it is 100 times the sum of the weights of the correct, positively
  weighted updates, with no division by the number of updates. \<^verbatim>\<open>reset\<close> zeroes the
  aggregate.
\<close>

theorem evaluator_contract:
  "update e p a w = (if w > 0 \<and> p = a then e\<lparr>aggregation := aggregation e + w\<rparr> else e)
   \<and> get_performance e = 100 * aggregation e
   \<and> get_performance (update_all ARFBaseClassifierEvaluator_init us) =
       100 * (\<Sum>(p, a, w) \<leftarrow> us. if w > 0 \<and> p = a then w else 0)
   \<and> aggregation (evaluator_reset e) = 0
   \<and> get_performance (evaluator_reset e) = 0"
  by (simp add: update_def get_performance_def evaluator_reset_def update_all_aggregation
      ARFBaseClassifierEvaluator_init_def)

subsection \<open>Learner without a drift detector\<close>

text \<open>
  Claim C1. A learner constructed with \<^verbatim>\<open>drift_detection_method = None\<close> has no drift
  detector, and line 351 calls \<^verbatim>\<open>self.drift_detection.add_element\<close> without testing
  \<^verbatim>\<open>_use_drift_detector\<close>: every call of \<^verbatim>\<open>partial_fit\<close> on such a learner ends in
  \<^verbatim>\<open>AttributeError\<close>, whatever the classifier, the instance and the weight. So does the
  first \<^verbatim>\<open>partial_fit\<close> of a forest constructed without a drift detector, once a
  resampling draw is positive.
\<close>

theorem partial_fit_without_drift_detector_raises:
  "ARFBaseLearner_partial_fit ops (ARFBaseLearner_init idx clf seen em None wm bg) X y w t
     = Inl AttributeError
   \<and> partial_fit mc_ops
        (AdaptiveRandomForest_init 1 (MF_int 1) False 6 PyNone PyNone None [1])
        [[0]] (Some [1]) None
     = Inl AttributeError"
proof -
  have a: "ARFBaseLearner_partial_fit ops (ARFBaseLearner_init idx clf seen em None wm bg) X y w t
     = Inl AttributeError"
    by (simp add: ARFBaseLearner_partial_fit_def train_and_check_warning_def check_drift_def
        ARFBaseLearner_init_def Let_def split: option.splits prod.splits)
  have b: "partial_fit mc_ops
        (AdaptiveRandomForest_init 1 (MF_int 1) False 6 PyNone PyNone None [1])
        [[0]] (Some [1]) None
     = Inl AttributeError"
    by (simp add: partial_fit_def partial_fit_instance_def init_ensemble_def set_max_features_def
        AdaptiveRandomForest_init_def is_BaseDriftDetector_def ARFBaseLearner_init_def
        ARFBaseLearner_partial_fit_def train_and_check_warning_def check_drift_def
        ARFBaseLearner_predict_def mc_ops_def mc_partial_fit_def mc_predict_def replay_poisson_def
        predicted_label_def py_max_key_def add_vote_def update_def new_evaluator_def
        ARFBaseClassifierEvaluator_init_def INSTANCE_WEIGHT_def row_count_def feature_count_def
        Let_def upt_rec)
  show ?thesis using a b by blast
qed

subsection \<open>Constructor\<close>

text \<open>
  Claim C10. A constructor argument for the drift or the warning detector that is not a
  \<^verbatim>\<open>BaseDriftDetector\<close> instance is stored as \<^verbatim>\<open>None\<close>, and the forest constructed is the
  one that an explicit \<^verbatim>\<open>None\<close> gives; the constructor has no failing branch.
\<close>

theorem constructor_non_detector_is_None:
  "(\<not> is_BaseDriftDetector v \<longrightarrow>
      arf_drift_detection_method
        (AdaptiveRandomForest_init nb mf dwv lam v w na rs :: ('c, 'd, 'r) AdaptiveRandomForest) = None
      \<and> (AdaptiveRandomForest_init nb mf dwv lam v w na rs :: ('c, 'd, 'r) AdaptiveRandomForest)
          = AdaptiveRandomForest_init nb mf dwv lam PyNone w na rs)
   \<and> (\<not> is_BaseDriftDetector w \<longrightarrow>
      arf_warning_detection_method
        (AdaptiveRandomForest_init nb mf dwv lam v w na rs :: ('c, 'd, 'r) AdaptiveRandomForest) = None
      \<and> (AdaptiveRandomForest_init nb mf dwv lam v w na rs :: ('c, 'd, 'r) AdaptiveRandomForest)
          = AdaptiveRandomForest_init nb mf dwv lam v PyNone na rs)"
  by (simp add: AdaptiveRandomForest_init_def is_BaseDriftDetector_def)

theorem constructor_non_detector_is_None_witness:
  "\<not> is_BaseDriftDetector (PyStr ''adwin'' :: run_detector py_value)
   \<and> \<not> is_BaseDriftDetector (PyFloat (1 / 100) :: run_detector py_value)
   \<and> arf_drift_detection_method
        (AdaptiveRandomForest_init 10 (MF_str ''auto'') False 6 (PyStr ''adwin'') (PyFloat (1 / 100)) None [1]
           :: (mc_classifier, run_detector, nat list) AdaptiveRandomForest) = None
   \<and> (AdaptiveRandomForest_init 10 (MF_str ''auto'') False 6 (PyStr ''adwin'') (PyFloat (1 / 100)) None [1]
           :: (mc_classifier, run_detector, nat list) AdaptiveRandomForest)
       = AdaptiveRandomForest_init 10 (MF_str ''auto'') False 6 PyNone (PyFloat (1 / 100)) None [1]
   \<and> arf_warning_detection_method
        (AdaptiveRandomForest_init 10 (MF_str ''auto'') False 6 (PyStr ''adwin'') (PyFloat (1 / 100)) None [1]
           :: (mc_classifier, run_detector, nat list) AdaptiveRandomForest) = None
   \<and> (AdaptiveRandomForest_init 10 (MF_str ''auto'') False 6 (PyStr ''adwin'') (PyFloat (1 / 100)) None [1]
           :: (mc_classifier, run_detector, nat list) AdaptiveRandomForest)
       = AdaptiveRandomForest_init 10 (MF_str ''auto'') False 6 (PyStr ''adwin'') PyNone None [1]"
proof -
  have h: "\<not> is_BaseDriftDetector (PyStr ''adwin'' :: run_detector py_value)"
          "\<not> is_BaseDriftDetector (PyFloat (1 / 100) :: run_detector py_value)"
    by (simp_all add: is_BaseDriftDetector_def)
  from h constructor_non_detector_is_None
         [of "PyStr ''adwin''" 10 "MF_str ''auto''" False 6 "PyFloat (1 / 100)" None "[1]",
          where ?'c = mc_classifier]
  show ?thesis by blast
qed

subsection \<open>Feature-subsample size\<close>

lemma py_round_sqrt_10: "py_round (sqrt 10) = 3"
proof -
  have a: "3 < sqrt 10" by (rule real_less_rsqrt) simp
  have b: "sqrt 10 < 7 / 2" by (rule real_less_lsqrt) (simp_all add: power2_eq_square)
  have f: "\<lfloor>sqrt 10\<rfloor> = 3" using a b by (simp add: floor_eq_iff)
  have "frac (sqrt 10) \<noteq> 1 / 2" using a b f by (simp add: frac_def)
  moreover have "round (sqrt 10) = 3" using a b by (simp add: round_def floor_eq_iff)
  ultimately show ?thesis by (simp add: py_round_def)
qed


lemma double_round_at:
  assumes "0 < x" and "2 powr (of_int e) \<le> x" and "x < 2 powr (of_int e + 1)"
  shows "double_round x = of_int (py_round (x / 2 powr (of_int (e - 52)))) * 2 powr (of_int (e - 52))"
proof -
  have "\<lfloor>log 2 x\<rfloor> = e" using assms by (simp add: floor_log_eq_powr_iff)
  then show ?thesis using assms(1) by (simp add: double_round_def Let_def)
qed




lemmas double_evaluation = py_round_def round_def frac_def powr_minus




lemma literal_0_75: "double_round (3 / 4) = 3 / 4"
  using double_round_at[of "3 / 4" "- 1"] by (simp add: double_evaluation)

lemma literal_0_25: "double_round (1 / 4) = 1 / 4"
  using double_round_at[of "1 / 4" "- 2"] by (simp add: double_evaluation)











subsection \<open>Prediction\<close>

lemmas concrete_evaluation =
  partial_fit_def partial_fit_instance_def init_ensemble_def set_max_features_def
  AdaptiveRandomForest_init_def is_BaseDriftDetector_def ARFBaseLearner_init_def
  ARFBaseLearner_partial_fit_def train_and_check_warning_def check_drift_def
  ARFBaseLearner_reset_def ARFBaseLearner_predict_def ARFBaseLearner_get_votes_for_instance_def
  mc_ops_def mc_partial_fit_def mc_predict_def run_add_element_def replay_poisson_def
  predicted_label_def py_max_key_def add_vote_def update_def get_performance_def
  new_evaluator_def ARFBaseClassifierEvaluator_init_def INSTANCE_WEIGHT_def
  normalize_values_in_dict_def get_votes_for_instance_def predict_def
  row_count_def feature_count_def Let_def upt_rec

text \<open>
  Claim C6 as stated fails in its last part. The label returned on a tie is the one that
  comes first in the combined mapping, and the order of that mapping is the order in
  which labels were first voted for, not an order on labels: the forest trained on the
  labels 1, 2 and the forest trained on the labels 2, 1 hold the same combined mapping,
  label 1 and label 2 with vote one half each, and predict 1 and 2 respectively.
\<close>

theorem predict_tie_counterexample:
  "tie_votes [1, 2] = Inr [(1, 1 / 2), (2, 1 / 2)]
   \<and> tie_votes [2, 1] = Inr [(2, 1 / 2), (1, 1 / 2)]
   \<and> map_of [(1 :: int, 1 / 2 :: real), (2, 1 / 2)] = map_of [(2, 1 / 2), (1, 1 / 2)]
   \<and> tie_prediction [1, 2] = Inr [1]
   \<and> tie_prediction [2, 1] = Inr [2]"
proof -
  have a: "tie_votes [1, 2] = Inr [(1, 1 / 2), (2, 1 / 2)]"
    by (simp add: tie_votes_def tie_forest_def concrete_evaluation)
  have b: "tie_votes [2, 1] = Inr [(2, 1 / 2), (1, 1 / 2)]"
    by (simp add: tie_votes_def tie_forest_def concrete_evaluation)
  have c: "map_of [(1 :: int, 1 / 2 :: real), (2, 1 / 2)] = map_of [(2, 1 / 2), (1, 1 / 2)]"
    by (auto simp add: fun_eq_iff)
  have d: "tie_prediction [1, 2] = Inr [1]" "tie_prediction [2, 1] = Inr [2]"
    by (simp_all add: tie_prediction_def tie_forest_def concrete_evaluation)
  show ?thesis using a b c d by blast
qed

lemma max_key_from_split:
  "\<forall>p\<in>set pre. snd p < v \<Longrightarrow> \<forall>p\<in>set mid. snd p \<le> v \<Longrightarrow>
   \<exists>pre1 v1 post. pre @ (k, v) # mid @ rest = pre1 @ (max_key_from k v rest, v1) # post
      \<and> (\<forall>p\<in>set pre1. snd p < v1) \<and> (\<forall>p\<in>set post. snd p \<le> v1)"
proof (induction rest arbitrary: pre k v mid)
  case Nil
  then show ?case by auto
next
  case (Cons a rest)
  obtain k1 v1 where a: "a = (k1, v1)" by (cases a)
  show ?case
  proof (cases "v1 > v")
    case True
    have "\<forall>p\<in>set (pre @ (k, v) # mid). snd p < v1" using Cons.prems True by fastforce
    from Cons.IH[OF this, of "[]" k1] show ?thesis using True a by simp
  next
    case False
    have "\<forall>p\<in>set (mid @ [(k1, v1)]). snd p \<le> v" using Cons.prems False by auto
    from Cons.IH[OF Cons.prems(1) this, of k] show ?thesis using False a by simp
  qed
qed

lemma predicted_label_first_maximum:
  "\<exists>label. predicted_label votes = Inr label
      \<and> (votes = [] \<longrightarrow> label = 0)
      \<and> (votes \<noteq> [] \<longrightarrow> (\<exists>pre v post. votes = pre @ (label, v) # post
             \<and> (\<forall>p\<in>set pre. snd p < v) \<and> (\<forall>p\<in>set post. snd p \<le> v)))"
proof (cases votes)
  case Nil
  then show ?thesis by (simp add: predicted_label_def)
next
  case (Cons a rest)
  obtain k v where a: "a = (k, v)" by (cases a)
  from max_key_from_split[of "[]" v "[]" k rest]
  obtain pre1 v1 post where s: "(k, v) # rest = pre1 @ (max_key_from k v rest, v1) # post"
      "\<forall>p\<in>set pre1. snd p < v1" "\<forall>p\<in>set post. snd p \<le> v1" by auto
  have "predicted_label votes = Inr (max_key_from k v rest)"
    using Cons a by (simp add: predicted_label_def py_max_key_def)
  moreover have "votes = pre1 @ (max_key_from k v rest, v1) # post" using s(1) Cons a by simp
  ultimately show ?thesis using s(2,3) Cons by blast
qed

lemma predict_rows_seq:
  "\<forall>i\<in>set idx. i < length X \<Longrightarrow>
   predict_rows ops X idx s acc = predict_seq ops (map ((!) X) idx) s acc"
  by (induction idx arbitrary: s acc) (auto split: sum.splits prod.splits)

lemma predict_is_seq: "predict ops s X = predict_seq ops X s []"
  by (simp add: predict_def predict_rows_seq map_nth)

lemma predict_seq_acc:
  "predict_seq ops rows s acc =
     (case predict_seq ops rows s [] of Inl e \<Rightarrow> Inl e | Inr (ls, s1) \<Rightarrow> Inr (acc @ ls, s1))"
proof (induction rows arbitrary: s acc)
  case Nil
  then show ?case by simp
next
  case (Cons x rows)
  show ?case
  proof (cases "get_votes_for_instance ops s x")
    case (Inl e)
    then show ?thesis by simp
  next
    case (Inr r)
    obtain votes s1 where r: "r = (votes, s1)" by (cases r)
    show ?thesis
    proof (cases "predicted_label votes")
      case (Inl e)
      then show ?thesis using Inr r by simp
    next
      case (Inr label)
      show ?thesis
        using \<open>get_votes_for_instance ops s x = Inr r\<close> r Inr
          Cons.IH[of s1 "acc @ [label]"] Cons.IH[of s1 "[label]"]
        by (simp split: sum.splits prod.splits)
    qed
  qed
qed

lemma predict_Cons:
  "predict ops s (x # xs) =
     (case predict ops s [x] of
        Inl e \<Rightarrow> Inl e
      | Inr (l1, s1) \<Rightarrow>
          (case predict ops s1 xs of Inl e \<Rightarrow> Inl e | Inr (ls, s2) \<Rightarrow> Inr (l1 @ ls, s2)))"
proof (cases "get_votes_for_instance ops s x")
  case (Inl e)
  then show ?thesis by (simp add: predict_is_seq)
next
  case (Inr r)
  obtain votes s1 where r: "r = (votes, s1)" by (cases r)
  show ?thesis
  proof (cases "predicted_label votes")
    case (Inl e)
    then show ?thesis using Inr r by (simp add: predict_is_seq)
  next
    case (Inr label)
    show ?thesis
      using \<open>get_votes_for_instance ops s x = Inr r\<close> r Inr predict_seq_acc[of ops xs s1 "[label]"]
      by (simp add: predict_is_seq split: sum.splits prod.splits)
  qed
qed

text \<open>
  Claim C6, amended. \<^verbatim>\<open>predict\<close> handles the rows one after the other, each as a
  one-row call on the forest the previous row left. For a row whose combined votes are
  computed, it does not raise: it returns the default label 0 when the combined mapping
  is empty, and otherwise a label whose vote is maximal, namely the first such label in
  the order of the combined mapping (every entry before it has a strictly smaller vote).
\<close>

theorem predict_label_per_row:
  "predict ops s [] = Inr ([], s)
   \<and> predict ops s (x # xs) =
       (case predict ops s [x] of
          Inl e \<Rightarrow> Inl e
        | Inr (l1, s1) \<Rightarrow>
            (case predict ops s1 xs of Inl e \<Rightarrow> Inl e | Inr (ls, s2) \<Rightarrow> Inr (l1 @ ls, s2)))
   \<and> (get_votes_for_instance ops s x = Inr (votes, s1) \<longrightarrow>
        (\<exists>label. predict ops s [x] = Inr ([label], s1)
           \<and> (votes = [] \<longrightarrow> label = 0)
           \<and> (votes \<noteq> [] \<longrightarrow> (\<exists>pre v post. votes = pre @ (label, v) # post
                  \<and> (\<forall>p\<in>set pre. snd p < v) \<and> (\<forall>p\<in>set post. snd p \<le> v)))))"
proof -
  have a: "predict ops s [] = Inr ([], s)" by (simp add: predict_def)
  have c: "get_votes_for_instance ops s x = Inr (votes, s1) \<longrightarrow>
        (\<exists>label. predict ops s [x] = Inr ([label], s1)
           \<and> (votes = [] \<longrightarrow> label = 0)
           \<and> (votes \<noteq> [] \<longrightarrow> (\<exists>pre v post. votes = pre @ (label, v) # post
                  \<and> (\<forall>p\<in>set pre. snd p < v) \<and> (\<forall>p\<in>set post. snd p \<le> v))))"
  proof
    assume g: "get_votes_for_instance ops s x = Inr (votes, s1)"
    from predicted_label_first_maximum[of votes] obtain label where
      l: "predicted_label votes = Inr label" "votes = [] \<longrightarrow> label = 0"
         "votes \<noteq> [] \<longrightarrow> (\<exists>pre v post. votes = pre @ (label, v) # post
                  \<and> (\<forall>p\<in>set pre. snd p < v) \<and> (\<forall>p\<in>set post. snd p \<le> v))"
      by blast
    have "predict ops s [x] = Inr ([label], s1)" using g l(1) by (simp add: predict_def)
    then show "\<exists>label. predict ops s [x] = Inr ([label], s1)
           \<and> (votes = [] \<longrightarrow> label = 0)
           \<and> (votes \<noteq> [] \<longrightarrow> (\<exists>pre v post. votes = pre @ (label, v) # post
                  \<and> (\<forall>p\<in>set pre. snd p < v) \<and> (\<forall>p\<in>set post. snd p \<le> v)))"
      using l(2,3) by blast
  qed
  show ?thesis using a c predict_Cons[of ops s x xs] by blast
qed

theorem predict_label_per_row_witness:
  "get_votes_for_instance mc_ops (forest_of True [((1, [(1, 2), (2, 2), (3, 1)]), 0)]) [0]
     = Inr ([(1, 2 / 5), (2, 2 / 5), (3, 1 / 5)], forest_of True [((1, [(1, 2), (2, 2), (3, 1)]), 0)])
   \<and> predict mc_ops (forest_of True [((1, [(1, 2), (2, 2), (3, 1)]), 0)]) [[0]]
     = Inr ([1], forest_of True [((1, [(1, 2), (2, 2), (3, 1)]), 0)])"
proof -
  let ?s = "forest_of True [((1, [(1, 2), (2, 2), (3, 1)]), 0)]"
  have g: "get_votes_for_instance mc_ops ?s [0] = Inr ([(1, 2 / 5), (2, 2 / 5), (3, 1 / 5)], ?s)"
    by (simp add: concrete_evaluation forest_of_def)
  from predict_label_per_row[of mc_ops ?s "[0]" "[]" "[(1, 2 / 5), (2, 2 / 5), (3, 1 / 5)]" ?s] g
  obtain label pre v post where
    p: "predict mc_ops ?s [[0]] = Inr ([label], ?s)"
       "[(1 :: int, 2 / 5 :: real), (2, 2 / 5), (3, 1 / 5)] = pre @ (label, v) # post"
       "\<forall>p\<in>set pre. snd p < v" "\<forall>p\<in>set post. snd p \<le> v"
    by auto
  have "label = 1"
  proof (cases pre)
    case Nil
    then show ?thesis using p(2) by simp
  next
    case (Cons a pre1)
    then have a: "a = (1, 2 / 5)" and r: "[(2 :: int, 2 / 5 :: real), (3, 1 / 5)] = pre1 @ (label, v) # post"
      using p(2) by simp_all
    have lt: "2 / 5 < v" using p(3) Cons a by simp
    show ?thesis
    proof (cases pre1)
      case Nil
      then show ?thesis using r lt by simp
    next
      case (Cons b pre2)
      then have "[(3 :: int, 1 / 5 :: real)] = pre2 @ (label, v) # post" using r by simp
      then have "v = 1 / 5" by (cases pre2) simp_all
      then show ?thesis using lt by simp
    qed
  qed
  then show ?thesis using g p(1) by simp
qed

subsection \<open>Drift confirmed\<close>

lemma train_keeps:
  "train_and_check_warning ops l X y weight seen = Inr (cc, l1) \<Longrightarrow>
     nb_drifts_detected (attrs l1) = nb_drifts_detected (attrs l)
   \<and> last_drift_on (attrs l1) = last_drift_on (attrs l)
   \<and> drift_detection (attrs l1) = drift_detection (attrs l)
   \<and> use_background_learner (attrs l1) = use_background_learner (attrs l)
   \<and> use_drift_detector (attrs l1) = use_drift_detector (attrs l)
   \<and> is_background_learner (attrs l1) = is_background_learner (attrs l)
   \<and> evaluator_method (attrs l1) = evaluator_method (attrs l)"
  by (auto simp add: train_and_check_warning_def Let_def split: if_splits option.splits prod.splits)

lemma train_bg_use:
  "train_and_check_warning ops l X y weight seen = Inr (cc, l1) \<Longrightarrow>
   (background_learner l \<noteq> None \<longrightarrow> use_background_learner (attrs l)) \<Longrightarrow>
   (background_learner l1 \<noteq> None \<longrightarrow> use_background_learner (attrs l1))"
  by (auto simp add: train_and_check_warning_def Let_def split: if_splits option.splits prod.splits)

text \<open>
  Claim C2. Let \<open>l1\<close> be the learner as it stands before line 350, with drift detector
  \<open>dd\<close>, and let the detector signal a change on the error bit. Then \<^verbatim>\<open>partial_fit\<close>
  returns a learner whose last-drift time is the current instance counter, whose drift
  count is one more, whose evaluator is a fresh one with aggregate zero, and whose
  background slot is empty. If \<open>l1\<close> owns a background learner, the classifier, the
  warning detector, the drift detector and \<^verbatim>\<open>created_on\<close> are the background learner's;
  otherwise the classifier and the drift detector are the learner's own after their
  \<^verbatim>\<open>reset\<close>, and \<^verbatim>\<open>created_on\<close> is the current instance counter. The last hypothesis
  holds for every ensemble member: a background learner exists only where the learner
  uses background learners.
\<close>

theorem drift_confirmed_reset:
  assumes t: "train_and_check_warning ops l X y weight seen = Inr (cc, l1)"
    and d: "drift_detection (attrs l1) = Some dd"
    and ch: "det_detected_change ops (det_add_element ops dd (if cc then 0 else 1)) = (True, dd2)"
    and inv: "background_learner l \<noteq> None \<longrightarrow> use_background_learner (attrs l)"
  shows "\<exists>l2. ARFBaseLearner_partial_fit ops l X y weight seen = Inr l2
     \<and> last_drift_on (attrs l2) = seen
     \<and> nb_drifts_detected (attrs l2) = nb_drifts_detected (attrs l) + 1
     \<and> evaluator (attrs l2) = ARFBaseClassifierEvaluator_init
     \<and> aggregation (evaluator (attrs l2)) = 0
     \<and> background_learner l2 = None
     \<and> (case background_learner l1 of
           Some b \<Rightarrow>
             classifier (attrs l2) = classifier (attrs b)
             \<and> warning_detection (attrs l2) = warning_detection (attrs b)
             \<and> drift_detection (attrs l2) = drift_detection (attrs b)
             \<and> created_on (attrs l2) = created_on (attrs b)
         | None \<Rightarrow>
             classifier (attrs l2) = clf_reset ops (classifier (attrs l1))
             \<and> drift_detection (attrs l2) = Some (det_reset ops dd2)
             \<and> created_on (attrs l2) = seen
             \<and> warning_detection (attrs l2) = warning_detection (attrs l1))"
proof -
  have k: "nb_drifts_detected (attrs l1) = nb_drifts_detected (attrs l)"
    using train_keeps[OF t] by simp
  have inv1: "background_learner l1 \<noteq> None \<longrightarrow> use_background_learner (attrs l1)"
    using train_bg_use[OF t inv] .
  have pf: "ARFBaseLearner_partial_fit ops l X y weight seen = check_drift ops l1 cc seen"
    using t by (simp add: ARFBaseLearner_partial_fit_def)
  show ?thesis
  proof (cases "background_learner l1")
    case None
    then show ?thesis using d ch k pf
      by (cases "evaluator_method (attrs l1)")
         (simp add: check_drift_def ARFBaseLearner_reset_def Let_def new_evaluator_def
           ARFBaseClassifierEvaluator_init_def)
  next
    case (Some b)
    then have "use_background_learner (attrs l1)" using inv1 by simp
    then show ?thesis using Some d ch k pf
      by (cases "evaluator_method (attrs b)")
         (simp add: check_drift_def ARFBaseLearner_reset_def Let_def new_evaluator_def
           ARFBaseClassifierEvaluator_init_def)
  qed
qed

theorem drift_confirmed_reset_witness:
  "(\<exists>l2. ARFBaseLearner_partial_fit mc_ops shadowing_learner [0] 2 1 7 = Inr l2
      \<and> last_drift_on (attrs l2) = 7 \<and> nb_drifts_detected (attrs l2) = 1
      \<and> aggregation (evaluator (attrs l2)) = 0 \<and> background_learner l2 = None
      \<and> classifier (attrs l2) = (1, [(2, 1)]) \<and> created_on (attrs l2) = 3
      \<and> drift_detection (attrs l2) = Some (1, 0) \<and> warning_detection (attrs l2) = Some (5, 0))
   \<and> (\<exists>l2. ARFBaseLearner_partial_fit mc_ops active_learner [0] 2 1 7 = Inr l2
      \<and> last_drift_on (attrs l2) = 7 \<and> nb_drifts_detected (attrs l2) = 1
      \<and> aggregation (evaluator (attrs l2)) = 0 \<and> background_learner l2 = None
      \<and> classifier (attrs l2) = (1, []) \<and> created_on (attrs l2) = 7
      \<and> drift_detection (attrs l2) = Some (1, 0))"
proof -
  let ?l1 = "ARFBaseLearner
       ((attrs (ARFBaseLearner_init 0 (1, [(1, 5), (2, 1)]) 0 ARFBaseClassifierEvaluator_class
                 (Some (1, 0)) (Some (5, 0)) False))\<lparr>warning_detection := Some (5, 1)\<rparr>)
       (Some (ARFBaseLearner_init 0 (1, [(2, 1)]) 3 ARFBaseClassifierEvaluator_class
                 (Some (1, 0)) (Some (5, 0)) True))"
  have t: "train_and_check_warning mc_ops shadowing_learner [0] 2 1 7 = Inr (False, ?l1)"
    by (simp add: shadowing_learner_def concrete_evaluation)
  have d: "drift_detection (attrs ?l1) = Some (1, 0)" by (simp add: ARFBaseLearner_init_def)
  have ch: "det_detected_change mc_ops (det_add_element mc_ops (1, 0) (if False then 0 else 1)) = (True, (1, 1))"
    by (simp add: mc_ops_def run_add_element_def)
  have inv: "background_learner shadowing_learner \<noteq> None \<longrightarrow> use_background_learner (attrs shadowing_learner)"
    by (simp add: shadowing_learner_def ARFBaseLearner_init_def)
  have a: "\<exists>l2. ARFBaseLearner_partial_fit mc_ops shadowing_learner [0] 2 1 7 = Inr l2
      \<and> last_drift_on (attrs l2) = 7 \<and> nb_drifts_detected (attrs l2) = 1
      \<and> aggregation (evaluator (attrs l2)) = 0 \<and> background_learner l2 = None
      \<and> classifier (attrs l2) = (1, [(2, 1)]) \<and> created_on (attrs l2) = 3
      \<and> drift_detection (attrs l2) = Some (1, 0) \<and> warning_detection (attrs l2) = Some (5, 0)"
    using drift_confirmed_reset[OF t d ch inv]
    by (auto simp add: shadowing_learner_def ARFBaseLearner_init_def mc_ops_def)
  let ?m1 = "ARFBaseLearner_init 0 (1, [(1, 5), (2, 1)]) 0 ARFBaseClassifierEvaluator_class
                 (Some (1, 0)) None False :: (mc_classifier, run_detector) ARFBaseLearner"
  have t2: "train_and_check_warning mc_ops active_learner [0] 2 1 7 = Inr (False, ?m1)"
    by (simp add: active_learner_def concrete_evaluation)
  have d2: "drift_detection (attrs ?m1) = Some (1, 0)" by (simp add: ARFBaseLearner_init_def)
  have inv2: "background_learner active_learner \<noteq> None \<longrightarrow> use_background_learner (attrs active_learner)"
    by (simp add: active_learner_def ARFBaseLearner_init_def)
  have b: "\<exists>l2. ARFBaseLearner_partial_fit mc_ops active_learner [0] 2 1 7 = Inr l2
      \<and> last_drift_on (attrs l2) = 7 \<and> nb_drifts_detected (attrs l2) = 1
      \<and> aggregation (evaluator (attrs l2)) = 0 \<and> background_learner l2 = None
      \<and> classifier (attrs l2) = (1, []) \<and> created_on (attrs l2) = 7
      \<and> drift_detection (attrs l2) = Some (1, 0)"
    using drift_confirmed_reset[OF t2 d2 ch inv2]
    by (auto simp add: active_learner_def ARFBaseLearner_init_def mc_ops_def)
  show ?thesis using a b by blast
qed

subsection \<open>No recursive shadowing\<close>

lemma member_ok_init: "member_ok (ARFBaseLearner_init i c t em dm wm False)"
  by (simp add: member_ok_def ARFBaseLearner_init_def)

lemma member_ok_train:
  "train_and_check_warning ops l X y weight seen = Inr (cc, l1) \<Longrightarrow> member_ok l \<Longrightarrow> member_ok l1"
  by (auto simp add: train_and_check_warning_def member_ok_def ARFBaseLearner_init_def Let_def
      split: if_splits option.splits prod.splits)

lemma member_ok_reset:
  "ARFBaseLearner_reset ops l seen = Inr l1 \<Longrightarrow> member_ok l \<Longrightarrow> member_ok l1"
  by (auto simp add: ARFBaseLearner_reset_def member_ok_def Let_def
      split: if_splits option.splits)

lemma member_ok_check_drift:
  "check_drift ops l cc seen = Inr l1 \<Longrightarrow> member_ok l \<Longrightarrow> member_ok l1"
proof -
  assume c: "check_drift ops l cc seen = Inr l1" and ok: "member_ok l"
  obtain dd where dd: "drift_detection (attrs l) = Some dd"
    using c by (cases "drift_detection (attrs l)") (simp_all add: check_drift_def)
  obtain changed dd2 where ch: "det_detected_change ops (det_add_element ops dd (if cc then 0 else 1)) = (changed, dd2)"
    by (cases "det_detected_change ops (det_add_element ops dd (if cc then 0 else 1))")
  let ?l1 = "ARFBaseLearner ((attrs l)\<lparr>drift_detection := Some dd2\<rparr>) (background_learner l)"
  have ok1: "member_ok ?l1" using ok by (simp add: member_ok_def split: option.splits)
  show "member_ok l1"
  proof (cases changed)
    case False
    then show ?thesis using c dd ch ok1 by (simp add: check_drift_def)
  next
    case True
    let ?l2 = "ARFBaseLearner ((attrs ?l1)\<lparr>last_drift_on := seen,
                   nb_drifts_detected := nb_drifts_detected (attrs ?l1) + 1\<rparr>) (background_learner ?l1)"
    have "member_ok ?l2" using ok by (simp add: member_ok_def split: option.splits)
    moreover have "ARFBaseLearner_reset ops ?l2 seen = Inr l1"
      using c dd ch True by (simp add: check_drift_def)
    ultimately show ?thesis using member_ok_reset by blast
  qed
qed

lemma member_ok_partial_fit:
  "ARFBaseLearner_partial_fit ops l X y weight seen = Inr l1 \<Longrightarrow> member_ok l \<Longrightarrow> member_ok l1"
  by (auto simp add: ARFBaseLearner_partial_fit_def split: sum.splits prod.splits
      dest: member_ok_train member_ok_check_drift)

lemma member_ok_update_evaluator:
  "member_ok l \<Longrightarrow> member_ok (ARFBaseLearner ((attrs l)\<lparr>evaluator := e\<rparr>) (background_learner l))"
  by (simp add: member_ok_def split: option.splits)

lemma set_update_ok: "\<forall>l\<in>set ens. P l \<Longrightarrow> P x \<Longrightarrow> \<forall>l\<in>set (ens[i := x]). P l"
  by (metis in_set_conv_nth length_list_update nth_list_update_eq nth_list_update_neq)

lemma forest_ok_fit_learners:
  "fit_learners ops X y weight idx s = Inr s1 \<Longrightarrow> forest_ok s \<Longrightarrow> forest_ok s1"
proof (induction idx arbitrary: s)
  case Nil
  then show ?case by simp
next
  case (Cons i rest)
  from Cons.prems(1) obtain ens where ens: "ensemble s = Some ens"
    by (cases "ensemble s") simp_all
  from Cons.prems(1) ens have i: "i < length ens" by (simp split: if_splits)
  have all: "\<forall>l\<in>set ens. member_ok l" using Cons.prems(2) ens by (simp add: forest_ok_def)
  let ?l = "ens ! i"
  let ?l1 = "ARFBaseLearner ((attrs ?l)\<lparr>evaluator :=
                update (evaluator (attrs ?l)) (ARFBaseLearner_predict ops ?l X) y weight\<rparr>)
              (background_learner ?l)"
  obtain k rnd where p: "poisson ops (random_state s) (lambda_value s) = (k, rnd)"
    by (cases "poisson ops (random_state s) (lambda_value s)")
  let ?s1 = "s\<lparr>random_state := rnd, ensemble := Some (ens[i := ?l1])\<rparr>"
  have "member_ok ?l" using all i by simp
  then have ok1: "member_ok ?l1" by (rule member_ok_update_evaluator)
  show ?case
  proof (cases "k > 0")
    case False
    then have "fit_learners ops X y weight rest ?s1 = Inr s1"
      using Cons.prems(1) ens i p by (simp add: Let_def)
    moreover have "forest_ok ?s1" using all ok1 set_update_ok[of ens member_ok ?l1 i]
      by (simp add: forest_ok_def)
    ultimately show ?thesis using Cons.IH by blast
  next
    case True
    then obtain l2 where l2: "ARFBaseLearner_partial_fit ops ?l1 X y (real k) (instances_seen ?s1) = Inr l2"
      and r: "fit_learners ops X y weight rest (?s1\<lparr>ensemble := Some (ens[i := l2])\<rparr>) = Inr s1"
      using Cons.prems(1) ens i p by (simp add: Let_def split: sum.splits)
    have "member_ok l2" using member_ok_partial_fit[OF l2 ok1] .
    then have "forest_ok (?s1\<lparr>ensemble := Some (ens[i := l2])\<rparr>)"
      using all set_update_ok[of ens member_ok l2 i] by (simp add: forest_ok_def)
    then show ?thesis using Cons.IH r by blast
  qed
qed

lemma forest_ok_init_ensemble:
  "init_ensemble ops s X = Inr s1 \<Longrightarrow> forest_ok s1"
  by (auto simp add: init_ensemble_def forest_ok_def member_ok_init split: sum.splits)

lemma partial_fit_instance_Inr:
  "partial_fit_instance ops s X y weight = Inr s1 \<Longrightarrow>
   \<exists>s2. (ensemble s = None \<and> init_ensemble ops (s\<lparr>instances_seen := Suc (instances_seen s)\<rparr>) X = Inr s2
          \<or> ensemble s \<noteq> None \<and> s2 = s\<lparr>instances_seen := Suc (instances_seen s)\<rparr>)
        \<and> fit_learners ops X y weight [0..<nb_ensemble s2] s2 = Inr s1"
  by (auto simp add: partial_fit_instance_def Let_def split: sum.splits if_splits)

lemma forest_ok_partial_fit_instance:
  "partial_fit_instance ops s X y weight = Inr s1 \<Longrightarrow> forest_ok s \<Longrightarrow> forest_ok s1"
proof -
  assume a: "partial_fit_instance ops s X y weight = Inr s1" and ok: "forest_ok s"
  from partial_fit_instance_Inr[OF a] obtain s2 where
    s2: "ensemble s = None \<and> init_ensemble ops (s\<lparr>instances_seen := Suc (instances_seen s)\<rparr>) X = Inr s2
          \<or> ensemble s \<noteq> None \<and> s2 = s\<lparr>instances_seen := Suc (instances_seen s)\<rparr>"
    and f: "fit_learners ops X y weight [0..<nb_ensemble s2] s2 = Inr s1" by blast
  have "forest_ok s2" using s2 ok forest_ok_init_ensemble by (auto simp add: forest_ok_def)
  then show "forest_ok s1" using f forest_ok_fit_learners by blast
qed

lemma forest_ok_fit_rows:
  "fit_rows ops X y weight idx s = Inr s1 \<Longrightarrow> forest_ok s \<Longrightarrow> forest_ok s1"
proof (induction idx arbitrary: s)
  case Nil
  then show ?case by simp
next
  case (Cons i rest)
  then show ?case
    by (auto split: if_splits sum.splits dest: forest_ok_partial_fit_instance
        simp add: forest_ok_def)
qed

lemma forest_ok_partial_fit:
  "partial_fit ops s X y weight = Inr s1 \<Longrightarrow> forest_ok s \<Longrightarrow> forest_ok s1"
  by (auto simp add: partial_fit_def row_count_def Let_def
      split: option.splits sum.splits if_splits list.splits dest: forest_ok_fit_rows)

lemma forest_ok_get_votes:
  "get_votes_for_instance ops s x = Inr (v, s1) \<Longrightarrow> forest_ok s \<Longrightarrow> forest_ok s1"
  by (auto simp add: get_votes_for_instance_def split: option.splits sum.splits if_splits
      dest: forest_ok_init_ensemble)

lemma forest_ok_predict_rows:
  "predict_rows ops X idx s acc = Inr (labels, s1) \<Longrightarrow> forest_ok s \<Longrightarrow> forest_ok s1"
proof (induction idx arbitrary: s acc)
  case Nil
  then show ?case by simp
next
  case (Cons i rest)
  then show ?case
    by (auto split: if_splits sum.splits prod.splits dest: forest_ok_get_votes)
qed

lemma forest_ok_reachable: "reachable ops s \<Longrightarrow> forest_ok s"
proof (induction rule: reachable.induct)
  case (reachable_init nb mf dwv lam drift_method warning_method nominal rs)
  then show ?case by (simp add: forest_ok_def AdaptiveRandomForest_init_def)
next
  case (reachable_partial_fit s X y weight s1)
  then show ?case using forest_ok_partial_fit by blast
next
  case (reachable_predict s Xs labels s1)
  then show ?case using forest_ok_predict_rows by (auto simp add: predict_def)
next
  case (reachable_get_votes s x v s1)
  then show ?case using forest_ok_get_votes by blast
next
  case (reachable_reset s)
  then show ?case by (simp add: forest_ok_def reset_def)
qed

lemma member_ok_nested:
  "member_ok l \<Longrightarrow> m \<in> set (nested_learners l) \<Longrightarrow> is_background_learner (attrs m) \<Longrightarrow>
   background_learner m = None"
proof -
  assume ok: "member_ok l" and m: "m \<in> set (nested_learners l)" and bg: "is_background_learner (attrs m)"
  obtain f b where l: "l = ARFBaseLearner f b" by (cases l)
  show ?thesis
  proof (cases b)
    case None
    then show ?thesis using ok m bg l by (simp add: member_ok_def)
  next
    case (Some c)
    obtain g d where c: "c = ARFBaseLearner g d" by (cases c)
    then have "d = None" using ok l Some by (simp add: member_ok_def)
    then show ?thesis using ok m bg l Some c by (auto simp add: member_ok_def)
  qed
qed

text \<open>
  Claim C9. In every forest that the constructor and the public methods can produce,
  every learner of the ensemble, nested ones included, that is marked as a background
  learner owns no background learner.
\<close>

theorem no_recursive_shadowing:
  "reachable ops s \<Longrightarrow> ensemble s = Some ens \<Longrightarrow> l \<in> set ens \<Longrightarrow>
   \<forall>m\<in>set (nested_learners l). is_background_learner (attrs m) \<longrightarrow> background_learner m = None"
  using forest_ok_reachable[of ops s] member_ok_nested[of l]
  by (auto simp add: forest_ok_def)

theorem no_recursive_shadowing_witness:
  "\<exists>s l b. shadow_forest = Inr s \<and> reachable mc_ops s \<and> ensemble s = Some [l]
      \<and> background_learner l = Some b \<and> is_background_learner (attrs b) \<and> background_learner b = None"
proof -
  have "\<exists>s l b. shadow_forest = Inr s \<and> ensemble s = Some [l] \<and> background_learner l = Some b
           \<and> is_background_learner (attrs b)"
    by (simp add: shadow_forest_def concrete_evaluation)
  then obtain s l b where e: "shadow_forest = Inr s" "ensemble s = Some [l]"
      "background_learner l = Some b" "is_background_learner (attrs b)" by blast
  have "partial_fit mc_ops
      (AdaptiveRandomForest_init 1 (MF_int 1) False 6 (Detector (100, 0)) (Detector (1, 0)) None [1, 1])
      [[0], [0]] (Some [1, 2]) (Some [1, 1]) = Inr s"
    using e(1) unfolding shadow_forest_def .
  then have r: "reachable mc_ops s" by (rule reachable_partial_fit[OF reachable_init])
  have "b \<in> set (nested_learners l)" using e(3) by (cases l; cases b) simp
  then have "background_learner b = None" using no_recursive_shadowing[OF r e(2), of l] e(4) by simp
  then show ?thesis using e r by blast
qed

subsection \<open>Rows of weight zero\<close>

lemma fit_rows_each:
  "\<forall>i\<in>set idx. i < length X \<and> i < length y \<and> i < length weight \<Longrightarrow>
   fit_rows ops X y weight idx s =
     fit_each ops (filter (\<lambda>(x, y, w). w \<noteq> 0) (map (\<lambda>i. (X ! i, y ! i, weight ! i)) idx)) s"
  by (induction idx arbitrary: s) (auto split: sum.splits)

lemma rows_as_zip:
  "length ys = length X \<Longrightarrow> length ws = length X \<Longrightarrow>
   map (\<lambda>i. (X ! i, ys ! i, ws ! i)) [0..<length X] = zip X (zip ys ws)"
  by (rule nth_equalityI) simp_all

lemma instances_seen_fit_learners:
  "fit_learners ops X y weight idx s = Inr s1 \<Longrightarrow> instances_seen s1 = instances_seen s"
proof (induction idx arbitrary: s)
  case Nil
  then show ?case by simp
next
  case (Cons i rest)
  from Cons.prems obtain ens where ens: "ensemble s = Some ens"
    by (cases "ensemble s") simp_all
  from Cons.prems ens have i: "i < length ens" by (simp split: if_splits)
  obtain k rnd where p: "poisson ops (random_state s) (lambda_value s) = (k, rnd)"
    by (cases "poisson ops (random_state s) (lambda_value s)")
  from Cons.prems ens i p obtain s2 where
    "fit_learners ops X y weight rest s2 = Inr s1" "instances_seen s2 = instances_seen s"
    by (auto simp add: Let_def split: if_splits sum.splits)
  then show ?case using Cons.IH by simp
qed

lemma instances_seen_partial_fit_instance:
  "partial_fit_instance ops s X y weight = Inr s1 \<Longrightarrow> instances_seen s1 = instances_seen s + 1"
proof -
  assume a: "partial_fit_instance ops s X y weight = Inr s1"
  from partial_fit_instance_Inr[OF a] obtain s2 where
    s2: "ensemble s = None \<and> init_ensemble ops (s\<lparr>instances_seen := Suc (instances_seen s)\<rparr>) X = Inr s2
          \<or> ensemble s \<noteq> None \<and> s2 = s\<lparr>instances_seen := Suc (instances_seen s)\<rparr>"
    and f: "fit_learners ops X y weight [0..<nb_ensemble s2] s2 = Inr s1" by blast
  have "instances_seen s2 = Suc (instances_seen s)"
    using s2 by (auto simp add: init_ensemble_def split: sum.splits)
  then show ?thesis using instances_seen_fit_learners[OF f] by simp
qed

lemma instances_seen_fit_each:
  "fit_each ops rows s = Inr s1 \<Longrightarrow> instances_seen s1 = instances_seen s + length rows"
proof (induction rows arbitrary: s)
  case Nil
  then show ?case by simp
next
  case (Cons r rows)
  obtain x y w where r: "r = (x, y, w)" by (cases r)
  from Cons.prems r obtain s2 where
    p: "partial_fit_instance ops (s\<lparr>train_weight_seen_by_model := train_weight_seen_by_model s + w\<rparr>) x y w = Inr s2"
    and f: "fit_each ops rows s2 = Inr s1"
    by (auto split: sum.splits)
  show ?case using instances_seen_partial_fit_instance[OF p] Cons.IH[OF f] by simp
qed

lemma length_filter_rows:
  "length X = length ys \<Longrightarrow> length ys = length ws \<Longrightarrow>
   length (filter (\<lambda>(x, y, w). w \<noteq> 0) (zip X (zip ys ws))) = length (filter (\<lambda>w. w \<noteq> (0::real)) ws)"
  by (induction X ys ws rule: list_induct3) auto

text \<open>
  Claim C8. With one label and one weight per row, \<^verbatim>\<open>partial_fit\<close> is the per-instance
  routine run, in order, on exactly the rows whose weight is not zero: a row of weight
  zero changes nothing at all, and a batch of such rows returns the forest as it was. Each
  run of the per-instance routine adds one to \<^verbatim>\<open>instances_seen\<close>, so a call that returns
  has advanced the counter by the number of rows of non-zero weight.
\<close>

theorem partial_fit_skips_zero_weight:
  assumes "length ys = length X" and "length ws = length X"
  shows "partial_fit ops s X (Some ys) (Some ws)
           = fit_each ops (filter (\<lambda>(x, y, w). w \<noteq> 0) (zip X (zip ys ws))) s
       \<and> (\<forall>s1. partial_fit ops s X (Some ys) (Some ws) = Inr s1 \<longrightarrow>
             instances_seen s1 = instances_seen s + length (filter (\<lambda>w. w \<noteq> 0) ws))
       \<and> ((\<forall>w\<in>set ws. w = 0) \<longrightarrow> partial_fit ops s X (Some ys) (Some ws) = Inr s)"
proof -
  have "partial_fit ops s X (Some ys) (Some ws) = fit_rows ops X ys ws [0..<length X] s"
    using assms by (simp add: partial_fit_def row_count_def Let_def)
  also have "\<dots> = fit_each ops (filter (\<lambda>(x, y, w). w \<noteq> 0)
                        (map (\<lambda>i. (X ! i, ys ! i, ws ! i)) [0..<length X])) s"
    using assms by (intro fit_rows_each) simp
  finally have a: "partial_fit ops s X (Some ys) (Some ws)
           = fit_each ops (filter (\<lambda>(x, y, w). w \<noteq> 0) (zip X (zip ys ws))) s"
    using assms by (simp add: rows_as_zip)
  have b: "\<forall>s1. partial_fit ops s X (Some ys) (Some ws) = Inr s1 \<longrightarrow>
             instances_seen s1 = instances_seen s + length (filter (\<lambda>w. w \<noteq> 0) ws)"
    using a instances_seen_fit_each[of ops _ s] length_filter_rows[of X ys ws] assms by simp
  have c: "(\<forall>w\<in>set ws. w = 0) \<longrightarrow> partial_fit ops s X (Some ys) (Some ws) = Inr s"
  proof
    assume z: "\<forall>w\<in>set ws. w = 0"
    have "filter (\<lambda>(x, y, w). w \<noteq> 0) (zip X (zip ys ws)) = []"
      using z by (auto simp add: filter_empty_conv dest!: set_zip_rightD)
    then show "partial_fit ops s X (Some ys) (Some ws) = Inr s" using a by simp
  qed
  show ?thesis using a b c by blast
qed

theorem partial_fit_skips_zero_weight_witness:
  "length [1, 1, 2 :: int] = length [[0], [0], [0 :: real]]
   \<and> length [1, 0, 2 :: real] = length [[0], [0], [0 :: real]]
   \<and> partial_fit mc_ops weighted_rows_forest [[0], [0], [0]] (Some [1, 1, 2]) (Some [1, 0, 2])
       = fit_each mc_ops [([0], 1, 1), ([0], 2, 2)] weighted_rows_forest
   \<and> (\<exists>s1. partial_fit mc_ops weighted_rows_forest [[0], [0], [0]] (Some [1, 1, 2]) (Some [1, 0, 2]) = Inr s1
         \<and> instances_seen s1 = 2)
   \<and> partial_fit mc_ops weighted_rows_forest [[0], [0], [0]] (Some [1, 1, 2]) (Some [0, 0, 0])
       = Inr weighted_rows_forest"
proof -
  have l: "length [1, 1, 2 :: int] = length [[0], [0], [0 :: real]]"
          "length [1, 0, 2 :: real] = length [[0], [0], [0 :: real]]"
          "length [0, 0, 0 :: real] = length [[0], [0], [0 :: real]]" by simp_all
  have e: "\<exists>s1. partial_fit mc_ops weighted_rows_forest [[0], [0], [0]] (Some [1, 1, 2]) (Some [1, 0, 2]) = Inr s1"
    by (simp add: weighted_rows_forest_def concrete_evaluation)
  have i0: "instances_seen weighted_rows_forest = 0"
    by (simp add: weighted_rows_forest_def AdaptiveRandomForest_init_def)
  note t = partial_fit_skips_zero_weight[OF l(1) l(2), of mc_ops weighted_rows_forest]
  note z = partial_fit_skips_zero_weight[OF l(1) l(3), of mc_ops weighted_rows_forest]
  have a: "partial_fit mc_ops weighted_rows_forest [[0], [0], [0]] (Some [1, 1, 2]) (Some [1, 0, 2])
       = fit_each mc_ops [([0], 1, 1), ([0], 2, 2)] weighted_rows_forest"
    using t by simp
  have b: "\<exists>s1. partial_fit mc_ops weighted_rows_forest [[0], [0], [0]] (Some [1, 1, 2]) (Some [1, 0, 2]) = Inr s1
         \<and> instances_seen s1 = 2"
    using e t i0 by auto
  have c: "partial_fit mc_ops weighted_rows_forest [[0], [0], [0]] (Some [1, 1, 2]) (Some [0, 0, 0])
       = Inr weighted_rows_forest"
    using z by simp
  show ?thesis using l a b c by blast
qed

subsection \<open>Vote aggregation\<close>

lemma map_of_add_vote:
  "map_of (add_vote cv k v) k1 =
     (if k1 = k then Some ((case map_of cv k of None \<Rightarrow> 0 | Some old \<Rightarrow> old) + v) else map_of cv k1)"
  by (simp add: add_vote_def update_conv' split: option.splits)

lemma distinct_add_vote: "distinct (map fst cv) \<Longrightarrow> distinct (map fst (add_vote cv k v))"
  by (simp add: add_vote_def distinct_update split: option.splits)

lemma distinct_add_votes: "distinct (map fst cv) \<Longrightarrow> distinct (map fst (add_votes vote cv))"
  unfolding add_votes_def
  by (induction vote arbitrary: cv) (auto simp add: distinct_add_vote)

lemma map_of_add_votes:
  "distinct (map fst vote) \<Longrightarrow>
   map_of (add_votes vote cv) k =
     (case map_of vote k of
        None \<Rightarrow> map_of cv k
      | Some v \<Rightarrow> Some ((case map_of cv k of None \<Rightarrow> 0 | Some old \<Rightarrow> old) + v))"
  unfolding add_votes_def
proof (induction vote arbitrary: cv)
  case Nil
  then show ?case by simp
next
  case (Cons a vote)
  obtain k1 v1 where a: "a = (k1, v1)" by (cases a)
  have d: "distinct (map fst vote)" and n: "k1 \<notin> fst ` set vote" using Cons.prems a by auto
  have nk: "map_of vote k1 = None" using n by (simp add: map_of_eq_None_iff)
  show ?case using Cons.IH[OF d, of "add_vote cv k1 v1"] a nk
    by (auto simp add: map_of_add_vote split: option.splits)
qed

lemma collect_votes_fold:
  "\<forall>i\<in>set idx. i < length ens \<Longrightarrow>
   \<forall>l\<in>set ens. 0 \<le> sum_list (map snd (ARFBaseLearner_get_votes_for_instance ops l X)) \<Longrightarrow>
   collect_votes ops dwv X ens idx cv =
     Inr (fold (\<lambda>l cv. add_votes (learner_share ops dwv X l) cv) (map ((!) ens) idx) cv)"
proof (induction idx arbitrary: cv)
  case Nil
  then show ?case by simp
next
  case (Cons i idx)
  have i: "i < length ens" using Cons.prems(1) by simp
  let ?vote = "ARFBaseLearner_get_votes_for_instance ops (ens ! i) X"
  have nn: "0 \<le> sum_list (map snd ?vote)" using Cons.prems(2) i by simp
  have scaled: "(if \<not> dwv
               then map (\<lambda>(k, v). (k, v * get_performance (evaluator (attrs (ens ! i)))))
                      (normalize_values_in_dict ?vote)
               else normalize_values_in_dict ?vote)
      = map (\<lambda>(k, v). (k, (v / sum_list (map snd ?vote))
                            * (if dwv then 1 else get_performance (evaluator (attrs (ens ! i))))))
          ?vote"
    by (cases dwv) (simp_all add: normalize_values_in_dict_def Let_def case_prod_unfold)
  have step: "(if ?vote \<noteq> [] \<and> sum_list (map snd ?vote) > 0
       then fold (\<lambda>(k, v) cv. add_vote cv k v)
              (if \<not> dwv
               then map (\<lambda>(k, v). (k, v * get_performance (evaluator (attrs (ens ! i)))))
                      (normalize_values_in_dict ?vote)
               else normalize_values_in_dict ?vote) cv
       else cv) = add_votes (learner_share ops dwv X (ens ! i)) cv"
    unfolding scaled using nn by (auto simp add: learner_share_def add_votes_def Let_def)
  have "collect_votes ops dwv X ens (i # idx) cv =
      collect_votes ops dwv X ens idx (add_votes (learner_share ops dwv X (ens ! i)) cv)"
    using i step by (auto simp add: Let_def)
  then show ?case using Cons.IH[of "add_votes (learner_share ops dwv X (ens ! i)) cv"] Cons.prems by simp
qed

lemma fst_learner_share:
  "map fst (learner_share ops dwv X l) =
     (if ARFBaseLearner_get_votes_for_instance ops l X = []
         \<or> sum_list (map snd (ARFBaseLearner_get_votes_for_instance ops l X)) = 0
      then [] else map fst (ARFBaseLearner_get_votes_for_instance ops l X))"
  by (simp add: learner_share_def Let_def case_prod_unfold comp_def)

lemma distinct_learner_share:
  "distinct (map fst (ARFBaseLearner_get_votes_for_instance ops l X)) \<Longrightarrow>
   distinct (map fst (learner_share ops dwv X l))"
  by (simp add: fst_learner_share)

lemma fold_shares:
  "\<forall>l\<in>set ens. distinct (map fst (learner_share ops dwv X l)) \<Longrightarrow> distinct (map fst cv) \<Longrightarrow>
   distinct (map fst (fold (\<lambda>l cv. add_votes (learner_share ops dwv X l) cv) ens cv))
   \<and> map_of (fold (\<lambda>l cv. add_votes (learner_share ops dwv X l) cv) ens cv) k =
       (if map_of cv k = None \<and> (\<forall>l\<in>set ens. map_of (learner_share ops dwv X l) k = None)
        then None
        else Some ((case map_of cv k of None \<Rightarrow> 0 | Some v \<Rightarrow> v) + tally ops dwv X ens k))"
proof (induction ens arbitrary: cv)
  case Nil
  then show ?case by (auto simp add: tally_def)
next
  case (Cons l ens)
  let ?cv = "add_votes (learner_share ops dwv X l) cv"
  have dl: "distinct (map fst (learner_share ops dwv X l))" using Cons.prems(1) by simp
  have d: "distinct (map fst ?cv)" using Cons.prems(2) by (rule distinct_add_votes)
  have m: "map_of ?cv k =
     (case map_of (learner_share ops dwv X l) k of
        None \<Rightarrow> map_of cv k
      | Some v \<Rightarrow> Some ((case map_of cv k of None \<Rightarrow> 0 | Some old \<Rightarrow> old) + v))"
    using dl by (rule map_of_add_votes)
  have t: "tally ops dwv X (l # ens) k =
      (case map_of (learner_share ops dwv X l) k of None \<Rightarrow> 0 | Some v \<Rightarrow> v) + tally ops dwv X ens k"
    by (simp add: tally_def)
  have ih: "distinct (map fst (fold (\<lambda>l cv. add_votes (learner_share ops dwv X l) cv) ens ?cv))
   \<and> map_of (fold (\<lambda>l cv. add_votes (learner_share ops dwv X l) cv) ens ?cv) k =
       (if map_of ?cv k = None \<and> (\<forall>l\<in>set ens. map_of (learner_share ops dwv X l) k = None)
        then None
        else Some ((case map_of ?cv k of None \<Rightarrow> 0 | Some v \<Rightarrow> v) + tally ops dwv X ens k))"
    using Cons.IH[of ?cv] Cons.prems(1) d by simp
  show ?case using ih m t by (auto split: option.splits)
qed

lemma sum_normalized:
  "sum_list (map snd vote) \<noteq> 0 \<Longrightarrow> sum_list (map snd (normalize_values_in_dict vote)) = 1"
proof -
  assume nz: "sum_list (map snd vote) \<noteq> 0"
  have "map snd (normalize_values_in_dict vote)
      = map (\<lambda>p. snd p * inverse (sum_list (map snd vote))) vote"
    by (simp add: normalize_values_in_dict_def Let_def case_prod_unfold comp_def divide_inverse)
  then have "sum_list (map snd (normalize_values_in_dict vote))
      = sum_list (map snd vote) * inverse (sum_list (map snd vote))"
    by (simp add: sum_list_mult_const)
  then show ?thesis using nz by simp
qed

lemma get_votes_general:
  assumes e: "ensemble s = Some ens" and n: "length ens = nb_ensemble s"
    and d: "\<forall>l\<in>set ens. distinct (map fst (ARFBaseLearner_get_votes_for_instance ops l X))"
    and p: "\<forall>l\<in>set ens. 0 \<le> sum_list (map snd (ARFBaseLearner_get_votes_for_instance ops l X))"
  shows "\<exists>cv. get_votes_for_instance ops s X = Inr (cv, s) \<and> distinct (map fst cv)
       \<and> (\<forall>k. map_of cv k =
             (if \<exists>l\<in>set ens. k \<in> fst ` set (learner_share ops (disable_weighted_vote s) X l)
              then Some (tally ops (disable_weighted_vote s) X ens k) else None))"
proof -
  let ?dwv = "disable_weighted_vote s"
  let ?cv = "fold (\<lambda>l cv. add_votes (learner_share ops ?dwv X l) cv) ens []"
  have "collect_votes ops ?dwv X ens [0..<nb_ensemble s] [] =
      Inr (fold (\<lambda>l cv. add_votes (learner_share ops ?dwv X l) cv) (map ((!) ens) [0..<nb_ensemble s]) [])"
    using n p by (intro collect_votes_fold) simp_all
  then have c: "collect_votes ops ?dwv X ens [0..<nb_ensemble s] [] = Inr ?cv"
    unfolding n[symmetric] by (simp add: map_nth)
  have g: "get_votes_for_instance ops s X = Inr (?cv, s)"
    using e c by (simp add: get_votes_for_instance_def)
  have ds: "\<forall>l\<in>set ens. distinct (map fst (learner_share ops ?dwv X l))"
    using d distinct_learner_share by blast
  have f: "\<And>k. distinct (map fst ?cv) \<and> map_of ?cv k =
       (if map_of [] k = None \<and> (\<forall>l\<in>set ens. map_of (learner_share ops ?dwv X l) k = None)
        then None
        else Some ((case map_of [] k of None \<Rightarrow> 0 | Some v \<Rightarrow> v) + tally ops ?dwv X ens k))"
    using fold_shares[OF ds, of "[]"] by simp
  have m: "\<forall>k. map_of ?cv k =
             (if \<exists>l\<in>set ens. k \<in> fst ` set (learner_share ops ?dwv X l)
              then Some (tally ops ?dwv X ens k) else None)"
    using f by (auto simp add: map_of_eq_None_iff)
  show ?thesis using g f m by blast
qed

text \<open>
  Claim C3. For a forest whose ensemble has \<^verbatim>\<open>nb_ensemble\<close> learners, whose learners' vote
  mappings have distinct keys (they are dicts) and non-negative sums (they hold counts),
  \<^verbatim>\<open>get_votes_for_instance\<close> returns a mapping with distinct keys that holds, for every
  label some contributing learner voted for, the sum over the learners of their
  contributions to that label, and holds no other label. A contribution is as
  \<open>learner_share\<close> states it: nothing from a learner whose mapping is empty or sums to
  zero, and otherwise the value divided by the sum of the mapping and, unless weighted
  voting is disabled, multiplied by the learner's performance. A normalised mapping
  sums to 1. Two learners of performance 50 and 150, each voting 1 for one label, give
  that label 200 with weighted voting and 2 without.
\<close>

theorem votes_aggregation:
  "(ensemble s = Some ens \<and> length ens = nb_ensemble s
      \<and> (\<forall>l\<in>set ens. distinct (map fst (ARFBaseLearner_get_votes_for_instance ops l X))
                      \<and> 0 \<le> sum_list (map snd (ARFBaseLearner_get_votes_for_instance ops l X)))
    \<longrightarrow> (\<exists>cv. get_votes_for_instance ops s X = Inr (cv, s) \<and> distinct (map fst cv)
           \<and> (\<forall>k. map_of cv k =
                 (if \<exists>l\<in>set ens. k \<in> fst ` set (learner_share ops (disable_weighted_vote s) X l)
                  then Some (tally ops (disable_weighted_vote s) X ens k) else None))))
   \<and> (sum_list (map snd vote) \<noteq> 0 \<longrightarrow> sum_list (map snd (normalize_values_in_dict vote)) = 1)
   \<and> get_performance (evaluator (attrs (the (ensemble (two_voters False)) ! 0))) = 50
   \<and> get_performance (evaluator (attrs (the (ensemble (two_voters False)) ! 1))) = 150
   \<and> get_votes_for_instance mc_ops (two_voters False) [0] = Inr ([(1, 200)], two_voters False)
   \<and> get_votes_for_instance mc_ops (two_voters True) [0] = Inr ([(1, 2)], two_voters True)"
proof -
  have a: "ensemble s = Some ens \<and> length ens = nb_ensemble s
      \<and> (\<forall>l\<in>set ens. distinct (map fst (ARFBaseLearner_get_votes_for_instance ops l X))
                      \<and> 0 \<le> sum_list (map snd (ARFBaseLearner_get_votes_for_instance ops l X)))
    \<longrightarrow> (\<exists>cv. get_votes_for_instance ops s X = Inr (cv, s) \<and> distinct (map fst cv)
           \<and> (\<forall>k. map_of cv k =
                 (if \<exists>l\<in>set ens. k \<in> fst ` set (learner_share ops (disable_weighted_vote s) X l)
                  then Some (tally ops (disable_weighted_vote s) X ens k) else None)))"
    using get_votes_general[of s ens ops X] by blast
  have b: "sum_list (map snd vote) \<noteq> 0 \<longrightarrow> sum_list (map snd (normalize_values_in_dict vote)) = 1"
    using sum_normalized by blast
  have c: "get_performance (evaluator (attrs (the (ensemble (two_voters False)) ! 0))) = 50"
          "get_performance (evaluator (attrs (the (ensemble (two_voters False)) ! 1))) = 150"
    by (simp_all add: two_voters_def forest_of_def get_performance_def)
  have d: "get_votes_for_instance mc_ops (two_voters False) [0] = Inr ([(1, 200)], two_voters False)"
    by (simp add: two_voters_def forest_of_def concrete_evaluation)
  have e: "get_votes_for_instance mc_ops (two_voters True) [0] = Inr ([(1, 2)], two_voters True)"
    by (simp add: two_voters_def forest_of_def concrete_evaluation)
  show ?thesis using a b c d e by blast
qed

theorem votes_aggregation_witness:
  "\<exists>cv. get_votes_for_instance mc_ops three_voters [0] = Inr (cv, three_voters)
      \<and> distinct (map fst cv)
      \<and> map_of cv 1 = Some (75 / 2) \<and> map_of cv 2 = Some (75 / 2) \<and> map_of cv 3 = None"
proof -
  obtain ens where ens: "ensemble three_voters = Some ens"
    and ens_def: "ens = the (ensemble three_voters)"
    by (simp add: three_voters_def forest_of_def)
  have n: "length ens = nb_ensemble three_voters"
    by (simp add: ens_def three_voters_def forest_of_def AdaptiveRandomForest_init_def)
  have h: "\<forall>l\<in>set ens. distinct (map fst (ARFBaseLearner_get_votes_for_instance mc_ops l [0]))
                      \<and> 0 \<le> sum_list (map snd (ARFBaseLearner_get_votes_for_instance mc_ops l [0]))"
    by (simp add: ens_def three_voters_def forest_of_def ARFBaseLearner_get_votes_for_instance_def
        mc_ops_def ARFBaseLearner_init_def)
  from votes_aggregation[of three_voters ens mc_ops "[0]"] ens n h
  obtain cv where cv: "get_votes_for_instance mc_ops three_voters [0] = Inr (cv, three_voters)"
      "distinct (map fst cv)"
      "\<forall>k. map_of cv k =
         (if \<exists>l\<in>set ens. k \<in> fst ` set (learner_share mc_ops (disable_weighted_vote three_voters) [0] l)
          then Some (tally mc_ops (disable_weighted_vote three_voters) [0] ens k) else None)"
    by blast
  have "map_of cv 1 = Some (75 / 2)" "map_of cv 2 = Some (75 / 2)" "map_of cv 3 = None"
    using cv(3)
    by (simp_all add: ens_def three_voters_def forest_of_def tally_def learner_share_def
        ARFBaseLearner_get_votes_for_instance_def mc_ops_def ARFBaseLearner_init_def
        AdaptiveRandomForest_init_def get_performance_def Let_def)
  then show ?thesis using cv(1,2) by blast
qed

subsection \<open>Reset and re-training\<close>

lemma reset_keeps_generator_and_zeroes_max_features:
  "random_state (reset s) = random_state s \<and> max_features (reset s) = MF_int 0"
  by (simp add: reset_def)

lemma set_max_features_auto_10: "set_max_features (MF_str ''auto'') (feature_count ten_features) = Inr 3"
  using py_round_sqrt_10 by (simp add: set_max_features_def feature_count_def ten_features_def Let_def)

lemma set_max_features_zero_10: "set_max_features (MF_int 0) (feature_count ten_features) = Inr 1"
  by (simp add: set_max_features_def feature_count_def ten_features_def Let_def)

lemmas retrain_evaluation = auto_forest_def train_once_def reset_and_retrain_def
  built_with_def predictions_of_def reset_def set_max_features_auto_10 set_max_features_zero_10

text \<open>
  Claim C5 fails on the code. \<^verbatim>\<open>reset\<close> stores 0 in \<^verbatim>\<open>max_features\<close>, which the next
  initialisation turns into 1, and it leaves the random generator where training left
  it. A fresh forest with \<^verbatim>\<open>"auto"\<close> builds its trees for ten features with
  \<^verbatim>\<open>max_features = 3\<close>; the same forest after \<^verbatim>\<open>reset\<close> and the same training builds them
  with 1. With a generator whose first two draws are 1 and 0, the fresh forest trains its
  learner and predicts label 1; after \<^verbatim>\<open>reset\<close> the same training draws 0, trains
  nothing, and the forest predicts the default label 0.
\<close>

theorem reset_then_retrain_differs:
  "built_with (train_once (auto_forest [1, 1])) = Inr (MF_int 3, [3])
   \<and> built_with (reset_and_retrain (auto_forest [1, 1])) = Inr (MF_int 1, [1])
   \<and> predictions_of (train_once (auto_forest [1, 0])) = Inr [1]
   \<and> predictions_of (reset_and_retrain (auto_forest [1, 0])) = Inr [0]"
proof -
  have a: "built_with (train_once (auto_forest [1, 1])) = Inr (MF_int 3, [3])"
    by (simp add: retrain_evaluation concrete_evaluation del: set_max_features_def feature_count_def)
  have b: "built_with (reset_and_retrain (auto_forest [1, 1])) = Inr (MF_int 1, [1])"
    by (simp add: retrain_evaluation concrete_evaluation del: set_max_features_def feature_count_def)
  have c: "predictions_of (train_once (auto_forest [1, 0])) = Inr [1]"
    by (simp add: retrain_evaluation concrete_evaluation del: set_max_features_def feature_count_def)
  have d: "predictions_of (reset_and_retrain (auto_forest [1, 0])) = Inr [0]"
    by (simp add: retrain_evaluation concrete_evaluation del: set_max_features_def feature_count_def)
  show ?thesis using a b c d by blast
qed

end
